theory Spec2Isabelle
  imports Main "HOL-Library.Word"
begin

section \<open>Public link shares kept in the oc\_share table\<close>

text \<open>
  A shallow embedding of the public share manager of package \<open>sql\<close>: the table
  \<open>oc_share\<close> is a list of rows, every statement the manager issues is a function
  on that list, and every operation takes the store and returns it updated next to
  its result.

  Conventions of the embedding:
  \<^item> \<open>time.Time\<close> is an \<open>int\<close>, the nanoseconds since the Unix epoch; a time made
    by \<open>time.Unix\<close> wraps around where the \<open>int64\<close> seconds Go keeps in it do. Every
    operation reads the clock once and gets that instant as its argument \<open>now\<close>.
  \<^item> A datetime column holds whole seconds since the epoch; the process, the
    driver and the database share one time zone (UTC).
  \<^item> A text column that every select reads through \<open>coalesce(col, '')\<close> is a
    string, with NULL read as the empty string; columns read without coalesce are
    not NULL. SQL \<open>=\<close> on text is equality of strings.
  \<^item> During a call the selects either all execute or all fail (\<open>queryOK\<close>), and
    so do the inserts, updates and deletes (\<open>execOK\<close>); the manager hands a failed
    statement's error to its caller. A result set that was opened is read to its
    end.
  \<^item> Library code outside this repository (bcrypt, the gateway client) and the
    packages \<open>publicshare\<close> and \<open>conversions\<close> are collaborators; what the manager
    needs from them is a field of the record \<open>deps\<close> or a definition marked as
    modelled from the specification.
\<close>

subsection \<open>Errors\<close>

datatype error =
    NotFound              \<comment> \<open>\<open>errtypes.NotFound\<close>\<close>
  | InvalidCredentials    \<comment> \<open>\<open>errtypes.InvalidCredentials\<close>\<close>
  | InvalidUpdateType     \<comment> \<open>\<open>fmt.Errorf("invalid update type: %v", ...)\<close>\<close>
  | HashError             \<comment> \<open>the error of \<open>bcrypt.GenerateFromPassword\<close>, wrapped\<close>
  | SignError             \<comment> \<open>the error of \<open>publicshare.AddSignature\<close>\<close>
  | StoreError            \<comment> \<open>an error of \<open>database/sql\<close> other than \<open>ErrNoRows\<close>\<close>
  | GatewayError          \<comment> \<open>the error of \<open>pool.GetGatewayServiceClient\<close>\<close>
  | Panic                 \<comment> \<open>a nil pointer dereference\<close>

subsection \<open>Time\<close>

type_synonym instant = int

record Timestamp =
  Seconds :: "64 word"
  Nanos :: "32 word"

text \<open>The nil-safe getters of \<open>*typespb.Timestamp\<close>.\<close>

definition GetSeconds :: "Timestamp option \<Rightarrow> 64 word" where
  "GetSeconds t = (case t of None \<Rightarrow> 0 | Some ts \<Rightarrow> Seconds ts)"

definition GetNanos :: "Timestamp option \<Rightarrow> 32 word" where
  "GetNanos t = (case t of None \<Rightarrow> 0 | Some ts \<Rightarrow> Nanos ts)"

text \<open>
  \<open>time.Unix(sec, nsec)\<close> for \<open>int64\<close> arguments. Go carries the whole seconds of
  \<open>nsec\<close> into \<open>sec\<close> and keeps in the time, as an \<open>int64\<close>, the seconds since
  the year 1, which are \<open>unixToInternal\<close> more than those since 1970; both additions
  wrap around. \<open>Before\<close> and \<open>After\<close> compare these seconds and then the nanoseconds
  within the second, which is the order of the instants.
\<close>

definition wrap64 :: "int \<Rightarrow> int" where
  "wrap64 x = (x + 9223372036854775808) mod 18446744073709551616 - 9223372036854775808"

definition unixToInternal :: int where
  "unixToInternal = 62135596800"

definition time_Unix :: "int \<Rightarrow> int \<Rightarrow> instant" where
  "time_Unix sec nsec =
     (wrap64 (sec + nsec div 1000000000 + unixToInternal) - unixToInternal) * 1000000000
     + nsec mod 1000000000"

text \<open>\<open>t.Before(u)\<close>, \<open>t.After(u)\<close> and \<open>t.Unix()\<close>.\<close>

definition Before :: "instant \<Rightarrow> instant \<Rightarrow> bool" where
  "Before t u = (t < u)"

definition After :: "instant \<Rightarrow> instant \<Rightarrow> bool" where
  "After t u = (u < t)"

definition Unix :: "instant \<Rightarrow> int" where
  "Unix t = t div 1000000000"

text \<open>
  \<open>time.Unix(int64(ts.GetSeconds()), int64(ts.GetNanos()))\<close>: the conversion of the
  unsigned seconds to \<open>int64\<close> reads the same 64 bits as a signed number.
\<close>

definition timeOf :: "Timestamp option \<Rightarrow> instant" where
  "timeOf t = time_Unix (sint (GetSeconds t)) (uint (GetNanos t))"

text \<open>
  \<open>t.Format("2006-01-02 03:04:05")\<close>, as the datetime the database reads the text
  back as. The layout element \<open>03\<close> is the hour on the 12-hour clock (\<open>15\<close> is the
  24-hour one): Go prints \<open>hour % 12\<close>, and 12 where that is 0. Date, minute and
  second are printed as they are; the fraction of the second is dropped.
\<close>

definition hour12 :: "int \<Rightarrow> int" where
  "hour12 h = (if h mod 12 = 0 then 12 else h mod 12)"

definition Format_2006_01_02_03_04_05 :: "instant \<Rightarrow> int" where
  "Format_2006_01_02_03_04_05 t =
     (let s = Unix t; h = (s mod 86400) div 3600
      in s - h * 3600 + hour12 h * 3600)"

subsection \<open>Strings\<close>

definition HasPrefix :: "string \<Rightarrow> string \<Rightarrow> bool" where
  "HasPrefix s p = (take (length p) s = p)"

definition TrimPrefix :: "string \<Rightarrow> string \<Rightarrow> string" where
  "TrimPrefix s p = (if HasPrefix s p then drop (length p) s else s)"

text \<open>
  \<open>strings.SplitN(s, "/", n)\<close> for \<open>n > 0\<close>: at most \<open>n\<close> pieces, the last one the
  unsplit rest. \<open>cutAt\<close> is the text before the first separator and, when there is
  one, the text after it.
\<close>

fun cutAt :: "char \<Rightarrow> string \<Rightarrow> string \<times> string option" where
  "cutAt sep [] = ([], None)"
| "cutAt sep (x # xs) =
     (if x = sep then ([], Some xs)
      else (case cutAt sep xs of (a, rest) \<Rightarrow> (x # a, rest)))"

fun SplitN :: "string \<Rightarrow> char \<Rightarrow> nat \<Rightarrow> string list" where
  "SplitN s sep 0 = []"
| "SplitN s sep (Suc 0) = [s]"
| "SplitN s sep (Suc (Suc n)) =
     (case cutAt sep s of
        (a, None) \<Rightarrow> [a]
      | (a, Some rest) \<Rightarrow> a # SplitN rest sep (Suc n))"

text \<open>
  \<open>strconv.FormatInt(n, 10)\<close>: a minus sign for a negative number, then the decimal
  digits, the last one split off at every step. The first argument of
  \<open>formatDigits\<close> bounds the number of steps; an \<open>int64\<close> has 19 digits at most.
\<close>

definition digit :: "int \<Rightarrow> char" where
  "digit d = ''0123456789'' ! nat d"

fun formatDigits :: "nat \<Rightarrow> int \<Rightarrow> string" where
  "formatDigits 0 n = []"
| "formatDigits (Suc k) n =
     (if n < 10 then [digit n] else formatDigits k (n div 10) @ [digit (n mod 10)])"

definition FormatInt :: "int \<Rightarrow> string" where
  "FormatInt n = (if n < 0 then CHR ''-'' # formatDigits 20 (- n) else formatDigits 20 n)"

text \<open>
  \<open>strconv.ParseUint(s, 10, 64)\<close>: \<open>None\<close> is its error (empty text, a character
  that is no decimal digit, a value beyond 64 bits).
\<close>

definition digitVal :: "char \<Rightarrow> int option" where
  "digitVal ch = (if ch \<in> set ''0123456789'' then Some (of_char ch - 48) else None)"

fun parseDigits :: "int \<Rightarrow> string \<Rightarrow> int option" where
  "parseDigits acc [] = Some acc"
| "parseDigits acc (x # xs) =
     (case digitVal x of None \<Rightarrow> None | Some d \<Rightarrow> parseDigits (acc * 10 + d) xs)"

definition ParseUint :: "string \<Rightarrow> int option" where
  "ParseUint s =
     (if s = [] then None
      else case parseDigits 0 s of
             None \<Rightarrow> None
           | Some n \<Rightarrow> if n < 18446744073709551616 then Some n else None)"

text \<open>\<open>strconv.ParseBool\<close> with its error dropped, as \<open>quicklink, _ := ...\<close> does.\<close>

definition ParseBool :: "string \<Rightarrow> bool" where
  "ParseBool s = (s \<in> set [''1'', ''t'', ''T'', ''TRUE'', ''true'', ''True''])"

subsection \<open>Messages of the sharing API\<close>

record ResourceId =
  StorageId :: string
  OpaqueId :: string

record ShareSignature =
  Signature :: string
  SignatureExpiration :: "Timestamp option"

text \<open>
  \<open>link.PublicShare\<close>. Identities are the strings \<open>conversions.FormatUserID\<close> makes
  of them, permissions the integer \<open>conversions.SharePermToInt\<close> makes of them.
\<close>

record PublicShare =
  ShareId :: string
  Token :: string
  ShareResourceId :: ResourceId
  Permissions :: int
  Owner :: string
  Creator :: string
  Ctime :: Timestamp
  Mtime :: Timestamp
  PasswordProtected :: bool
  Expiration :: "Timestamp option"
  DisplayName :: string
  Quicklink :: bool
  Description :: string
  ShareSig :: "ShareSignature option"

text \<open>
  \<open>link.PublicShareReference\<close> and \<open>link.PublicShareAuthentication\<close>, each as what
  its nil-safe getters return: \<open>GetId\<close> is the opaque id of the id when there is one,
  \<open>GetToken\<close> and \<open>GetPassword\<close> are empty when the field is not set.
\<close>

record PublicShareReference =
  GetId :: "string option"
  GetToken :: string

record PublicShareAuthentication =
  GetPassword :: string
  GetSignature :: "ShareSignature option"

text \<open>\<open>link.Grant\<close>; \<open>GrantPermissions\<close> is \<open>None\<close> for a nil \<open>Permissions\<close>.\<close>

record Grant =
  GrantPermissions :: "int option"
  Password :: string
  GrantExpiration :: "Timestamp option"

datatype UpdateType =
    TYPE_INVALID | TYPE_PERMISSIONS | TYPE_PASSWORD | TYPE_EXPIRATION
  | TYPE_DISPLAYNAME | TYPE_DESCRIPTION

record Update =
  GetType :: UpdateType
  GetGrant :: "Grant option"
  GetDisplayName :: string
  GetDescription :: string

record UpdatePublicShareRequest =
  Ref :: PublicShareReference
  GetUpdate :: "Update option"

text \<open>
  \<open>link.ListPublicSharesRequest_Filter\<close>: a filter of a kind carries the term of
  that kind; the last alternative is any kind the manager does not know.
\<close>

datatype Filter =
    Filter_TYPE_RESOURCE_ID ResourceId
  | Filter_TYPE_OWNER string
  | Filter_TYPE_CREATOR string
  | Filter_TYPE_INVALID

record User =
  UserId :: string
  Groups :: "string list"

record ResourceInfo =
  Metadata :: "string \<rightharpoonup> string"
  ResourceOwner :: string
  ResourceType :: string
  ResourceInfoId :: ResourceId

record StatResponse =
  StatusOK :: bool
  Path :: string

subsection \<open>Configuration and collaborators\<close>

record config =
  SharePasswordHashCost :: int
  JanitorRunInterval :: int
  EnableExpiredSharesCleanup :: bool

definition config_init :: "config \<Rightarrow> config" where
  "config_init cfg =
     (let c1 = (if SharePasswordHashCost cfg = 0 then cfg\<lparr>SharePasswordHashCost := 11\<rparr> else cfg)
      in if JanitorRunInterval c1 = 0 then c1\<lparr>JanitorRunInterval := 3600\<rparr> else c1)"

text \<open>
  What the manager calls outside this package:
  \<^item> \<open>GenerateFromPassword\<close>, \<open>CompareHashAndPassword\<close>: package bcrypt; \<open>None\<close> is
    the error of the first, \<open>True\<close> the nil error of the second (its arguments in
    the order of the library: hash, password);
  \<^item> \<open>CreateSignature\<close>: \<open>publicshare.CreateSignature(token, pw, expiration)\<close>,
    \<open>None\<close> its error; \<open>signatureValidity\<close>: how long after its creation a
    signature of \<open>publicshare.AddSignature\<close> expires, in nanoseconds;
  \<^item> \<open>GatewayClient\<close>: \<open>pool.GetGatewayServiceClient\<close>, \<open>None\<close> its error, and the
    client's \<open>Stat\<close> by resource id, \<open>None\<close> the error of the call.
\<close>

record deps =
  GenerateFromPassword :: "string \<Rightarrow> int \<Rightarrow> string option"
  CompareHashAndPassword :: "string \<Rightarrow> string \<Rightarrow> bool"
  CreateSignature :: "string \<Rightarrow> string \<Rightarrow> instant \<Rightarrow> string option"
  signatureValidity :: int
  GatewayClient :: "(ResourceId \<Rightarrow> StatResponse option) option"

subsection \<open>Password hashes and capability signatures\<close>

definition hashPassword :: "deps \<Rightarrow> string \<Rightarrow> int \<Rightarrow> string \<times> error option" where
  "hashPassword d password cost =
     (case GenerateFromPassword d password cost of
        None \<Rightarrow> (''1|'', Some HashError)
      | Some bytes \<Rightarrow> (''1|'' @ bytes, None))"

definition checkPasswordHash :: "deps \<Rightarrow> string \<Rightarrow> string \<Rightarrow> bool" where
  "checkPasswordHash d password hash =
     CompareHashAndPassword d (TrimPrefix hash ''1|'') password"

definition authenticate ::
  "deps \<Rightarrow> instant \<Rightarrow> PublicShare \<Rightarrow> string \<Rightarrow> PublicShareAuthentication \<Rightarrow> bool" where
  "authenticate d now share pw auth =
     (if GetPassword auth \<noteq> [] then checkPasswordHash d (GetPassword auth) pw
      else case GetSignature auth of
        Some sig \<Rightarrow>
          (let expiration = timeOf (SignatureExpiration sig)
           in if After now expiration then False
              else case CreateSignature d (Token share) pw expiration of
                     None \<Rightarrow> False
                   | Some s \<Rightarrow> Signature sig = s)
      | None \<Rightarrow> False)"

text \<open>The timestamp of an instant: its whole seconds and the nanoseconds left.\<close>

definition timestampOf :: "instant \<Rightarrow> Timestamp" where
  "timestampOf t =
     \<lparr>Seconds = word_of_int (t div 1000000000), Nanos = word_of_int (t mod 1000000000)\<rparr>"

text \<open>
  Modelled from the spec: \<open>publicshare.AddSignature\<close> is outside the verified sources.
  The specification has Get, List and AuthenticateByToken attach "a computed
  capability signature (valid for an implementation-defined short window)": the
  signature of the share's token under the stored hash, expiring
  \<open>signatureValidity\<close> after the call.
\<close>

definition AddSignature :: "deps \<Rightarrow> instant \<Rightarrow> PublicShare \<Rightarrow> string \<Rightarrow> error + PublicShare" where
  "AddSignature d now share pw =
     (case CreateSignature d (Token share) pw (now + signatureValidity d) of
        None \<Rightarrow> Inl SignError
      | Some sig \<Rightarrow>
          Inr (share\<lparr>ShareSig :=
                 Some \<lparr>Signature = sig,
                       SignatureExpiration = Some (timestampOf (now + signatureValidity d))\<rparr>\<rparr>))"

definition expired :: "instant \<Rightarrow> PublicShare \<Rightarrow> bool" where
  "expired now s =
     (case Expiration s of
        Some ts \<Rightarrow> Before (timeOf (Some ts)) now
      | None \<Rightarrow> False)"


subsection \<open>The table\<close>

definition publicShareType :: int where
  "publicShareType = 3"

definition projectInstancesPrefix :: string where
  "projectInstancesPrefix = ''newproject''"

definition projectSpaceGroupsPrefix :: string where
  "projectSpaceGroupsPrefix = ''cernbox-project-''"

definition projectSpaceAdminGroupsSuffix :: string where
  "projectSpaceAdminGroupsSuffix = ''-admins''"

text \<open>
  A row of \<open>oc_share\<close>; \<open>share_with\<close> holds the password hash, \<open>uid_initiator\<close>
  the creator, \<open>expiration\<close> and \<open>orphan\<close> are nullable.
\<close>

record row =
  row_id :: string
  share_type :: int
  uid_owner :: string
  uid_initiator :: string
  item_type :: string
  fileid_prefix :: string
  item_source :: string
  file_source :: int
  permissions :: int
  stime :: int
  token :: string
  share_name :: string
  quicklink :: bool
  description :: string
  internal :: bool
  share_with :: string
  expiration :: "int option"
  orphan :: "bool option"

record store =
  table :: "row list"
  lastInsertId :: int
  queryOK :: bool
  execOK :: bool

text \<open>
  Modelled from the spec: \<open>conversions.ConvertToCS3PublicShare\<close> is outside the
  verified sources. The columns are mapped the way \<open>CreatePublicShare\<close> fills the
  share it returns from the values it inserts; after the specification,
  \<open>passwordProtected\<close> "is true iff \<open>passwordHash\<close> is a non-empty value" and the
  expiration is an "optional instant; absence means never expires".
\<close>

definition ConvertToCS3PublicShare :: "row \<Rightarrow> PublicShare" where
  "ConvertToCS3PublicShare s =
     \<lparr>ShareId = row_id s,
      Token = token s,
      ShareResourceId = \<lparr>StorageId = fileid_prefix s, OpaqueId = item_source s\<rparr>,
      Permissions = permissions s,
      Owner = uid_owner s,
      Creator = uid_initiator s,
      Ctime = \<lparr>Seconds = word_of_int (stime s), Nanos = 0\<rparr>,
      Mtime = \<lparr>Seconds = word_of_int (stime s), Nanos = 0\<rparr>,
      PasswordProtected = (share_with s \<noteq> []),
      Expiration = map_option (\<lambda>e. \<lparr>Seconds = word_of_int e, Nanos = 0\<rparr>) (expiration s),
      DisplayName = share_name s,
      Quicklink = quicklink s,
      Description = description s,
      ShareSig = None\<rparr>"

subsection \<open>Where clauses\<close>

text \<open>\<open>(orphan = 0 or orphan IS NULL)\<close>\<close>

definition notOrphan :: "row \<Rightarrow> bool" where
  "notOrphan r = (orphan r = Some False \<or> orphan r = None)"

text \<open>\<open>(uid_owner=? or uid_initiator=?)\<close> with both parameters bound.\<close>

definition ownerOrInitiator :: "string \<Rightarrow> string \<Rightarrow> row \<Rightarrow> bool" where
  "ownerOrInitiator a b r = (uid_owner r = a \<or> uid_initiator r = b)"

text \<open>The where clause of \<open>getByToken\<close>.\<close>

definition getByToken_where :: "string \<Rightarrow> row \<Rightarrow> bool" where
  "getByToken_where tkn r =
     (notOrphan r \<and> share_type r = publicShareType \<and> token r = tkn)"

text \<open>The where clause of \<open>getByID\<close>.\<close>

definition getByID_where :: "string \<Rightarrow> string \<Rightarrow> row \<Rightarrow> bool" where
  "getByID_where ident uid r =
     (notOrphan r \<and> share_type r = publicShareType \<and> row_id r = ident
      \<and> ownerOrInitiator uid uid r)"

text \<open>The where clause of \<open>GetPublicShareByToken\<close>.\<close>

definition GetPublicShareByToken_where :: "string \<Rightarrow> row \<Rightarrow> bool" where
  "GetPublicShareByToken_where tkn r = (share_type r = publicShareType \<and> token r = tkn)"

text \<open>
  The where clauses of the update and delete statements:
  \<open>id=? AND (uid_owner=? or uid_initiator=?)\<close> and
  \<open>token=? AND (uid_owner=? or uid_initiator=?)\<close>.
\<close>

definition byIdOwned :: "string \<Rightarrow> string \<Rightarrow> row \<Rightarrow> bool" where
  "byIdOwned ident uid r = (row_id r = ident \<and> ownerOrInitiator uid uid r)"

definition byTokenOwned :: "string \<Rightarrow> string \<Rightarrow> row \<Rightarrow> bool" where
  "byTokenOwned tkn uid r = (token r = tkn \<and> ownerOrInitiator uid uid r)"

text \<open>\<open>expiration IS NOT NULL AND expiration < ?\<close>\<close>

definition cleanup_where :: "int \<Rightarrow> row \<Rightarrow> bool" where
  "cleanup_where p r = (case expiration r of None \<Rightarrow> False | Some e \<Rightarrow> e < p)"

subsection \<open>Lookups and the sweep\<close>

text \<open>\<open>QueryRow(...).Scan(...)\<close>: the first row of the result, \<open>ErrNoRows\<close> without one.\<close>

definition getByToken :: "store \<Rightarrow> string \<Rightarrow> error + (PublicShare \<times> string)" where
  "getByToken db tkn =
     (if \<not> queryOK db then Inl StoreError
      else case find (getByToken_where tkn) (table db) of
             None \<Rightarrow> Inl NotFound
           | Some s \<Rightarrow> Inr (ConvertToCS3PublicShare (s\<lparr>token := tkn\<rparr>), share_with s))"

definition getByID :: "store \<Rightarrow> string \<Rightarrow> User \<Rightarrow> error + (PublicShare \<times> string)" where
  "getByID db ident u =
     (let uid = UserId u
      in if \<not> queryOK db then Inl StoreError
         else case find (getByID_where ident uid) (table db) of
                None \<Rightarrow> Inl NotFound
              | Some s \<Rightarrow> Inr (ConvertToCS3PublicShare (s\<lparr>row_id := ident\<rparr>), share_with s))"

definition markOrphan :: "int \<Rightarrow> row \<Rightarrow> row" where
  "markOrphan p r = (if cleanup_where p r then r\<lparr>orphan := Some True\<rparr> else r)"

definition cleanupExpiredShares :: "config \<Rightarrow> instant \<Rightarrow> store \<Rightarrow> error option \<times> store" where
  "cleanupExpiredShares cfg now db =
     (if \<not> EnableExpiredSharesCleanup cfg then (None, db)
      else if \<not> execOK db then (Some StoreError, db)
      else (None, db\<lparr>table := map (markOrphan (Format_2006_01_02_03_04_05 now)) (table db)\<rparr>))"

text \<open>
  The janitor: nothing when the cleanup is disabled; otherwise one sweep at every
  tick, its error dropped, until a signal arrives. The channel events the loop
  selects on are the list it consumes.
\<close>

datatype event = Tick instant | Signal

fun startJanitorRun :: "config \<Rightarrow> event list \<Rightarrow> store \<Rightarrow> store" where
  "startJanitorRun cfg [] db = db"
| "startJanitorRun cfg (Signal # es) db = db"
| "startJanitorRun cfg (Tick t # es) db =
     (if \<not> EnableExpiredSharesCleanup cfg then db
      else startJanitorRun cfg es (snd (cleanupExpiredShares cfg t db)))"

subsection \<open>Get\<close>

definition GetPublicShare ::
  "config \<Rightarrow> deps \<Rightarrow> instant \<Rightarrow> User \<Rightarrow> PublicShareReference \<Rightarrow> bool \<Rightarrow> store
   \<Rightarrow> (error + PublicShare) \<times> store" where
  "GetPublicShare cfg d now u ref sign db =
     (case (case GetId ref of
              Some ident \<Rightarrow> getByID db ident u
            | None \<Rightarrow> if GetToken ref \<noteq> [] then getByToken db (GetToken ref)
                      else Inl NotFound) of
        Inl err \<Rightarrow> (Inl err, db)
      | Inr (s, pw) \<Rightarrow>
          if expired now s then
            (case cleanupExpiredShares cfg now db of
               (Some err, db') \<Rightarrow> (Inl err, db')
             | (None, db') \<Rightarrow> (Inl NotFound, db'))
          else if PasswordProtected s \<and> sign then
            (case AddSignature d now s pw of
               Inl err \<Rightarrow> (Inl err, db)
             | Inr s' \<Rightarrow> (Inr s', db))
          else (Inr s, db))"

subsection \<open>Authenticate by token\<close>

definition GetPublicShareByToken ::
  "config \<Rightarrow> deps \<Rightarrow> instant \<Rightarrow> string \<Rightarrow> PublicShareAuthentication \<Rightarrow> bool \<Rightarrow> store
   \<Rightarrow> (error + PublicShare) \<times> store" where
  "GetPublicShareByToken cfg d now tkn auth sign db =
     (if \<not> queryOK db then (Inl StoreError, db)
      else case find (GetPublicShareByToken_where tkn) (table db) of
        None \<Rightarrow> (Inl NotFound, db)
      | Some s \<Rightarrow>
          (let cs3Share = ConvertToCS3PublicShare (s\<lparr>token := tkn\<rparr>)
           in if expired now cs3Share then
                (case cleanupExpiredShares cfg now db of
                   (Some err, db') \<Rightarrow> (Inl err, db')
                 | (None, db') \<Rightarrow> (Inl NotFound, db'))
              else if share_with s \<noteq> [] then
                (if \<not> authenticate d now cs3Share (share_with s) auth
                 then (Inl InvalidCredentials, db)
                 else if sign then
                   (case AddSignature d now cs3Share (share_with s) of
                      Inl err \<Rightarrow> (Inl err, db)
                    | Inr s' \<Rightarrow> (Inr s', db))
                 else (Inr cs3Share, db))
              else (Inr cs3Share, db)))"

subsection \<open>Update\<close>

text \<open>The single entry of \<open>paramsMap\<close>: a column and the value bound to it.\<close>

datatype assignment =
    Set_share_name string
  | Set_permissions int
  | Set_expiration int
  | Set_share_with string
  | Set_description string

fun assign :: "assignment \<Rightarrow> row \<Rightarrow> row" where
  "assign (Set_share_name v) r = r\<lparr>share_name := v\<rparr>"
| "assign (Set_permissions v) r = r\<lparr>permissions := v\<rparr>"
| "assign (Set_expiration v) r = r\<lparr>expiration := Some v\<rparr>"
| "assign (Set_share_with v) r = r\<lparr>share_with := v\<rparr>"
| "assign (Set_description v) r = r\<lparr>description := v\<rparr>"

text \<open>
  The switch on \<open>req.GetUpdate().GetType()\<close>. The getters are nil-safe, the field
  reads \<open>GetGrant().Password\<close>, \<open>GetGrant().Expiration.Seconds\<close> and
  \<open>GetGrant().GetPermissions().Permissions\<close> are not.
\<close>

definition updateParams :: "config \<Rightarrow> deps \<Rightarrow> Update option \<Rightarrow> error + assignment" where
  "updateParams cfg d upd =
     (case upd of
        None \<Rightarrow> Inl InvalidUpdateType
      | Some up \<Rightarrow>
          (case GetType up of
             TYPE_DISPLAYNAME \<Rightarrow> Inr (Set_share_name (GetDisplayName up))
           | TYPE_PERMISSIONS \<Rightarrow>
               (case GetGrant up of
                  None \<Rightarrow> Inl Panic
                | Some g \<Rightarrow>
                    (case GrantPermissions g of
                       None \<Rightarrow> Inl Panic
                     | Some p \<Rightarrow> Inr (Set_permissions p)))
           | TYPE_EXPIRATION \<Rightarrow>
               (case GetGrant up of
                  None \<Rightarrow> Inl Panic
                | Some g \<Rightarrow>
                    (case GrantExpiration g of
                       None \<Rightarrow> Inl Panic
                     | Some ts \<Rightarrow>
                         Inr (Set_expiration (Unix (time_Unix (sint (Seconds ts)) 0)))))
           | TYPE_PASSWORD \<Rightarrow>
               (case GetGrant up of
                  None \<Rightarrow> Inl Panic
                | Some g \<Rightarrow>
                    if Password g = [] then Inr (Set_share_with [])
                    else (case hashPassword d (Password g) (SharePasswordHashCost cfg) of
                            (h, None) \<Rightarrow> Inr (Set_share_with h)
                          | (h, Some err) \<Rightarrow> Inl err))
           | TYPE_DESCRIPTION \<Rightarrow> Inr (Set_description (GetDescription up))
           | TYPE_INVALID \<Rightarrow> Inl InvalidUpdateType))"

text \<open>The second switch: the where clause, or none when the reference is empty.\<close>

definition updateSelector :: "User \<Rightarrow> PublicShareReference \<Rightarrow> (row \<Rightarrow> bool) option" where
  "updateSelector u ref =
     (case GetId ref of
        Some ident \<Rightarrow> Some (byIdOwned ident (UserId u))
      | None \<Rightarrow> if GetToken ref \<noteq> [] then Some (byTokenOwned (GetToken ref) (UserId u))
                else None)"

text \<open>\<open>update oc_share set <column>=?,stime=? where ...\<close>\<close>

definition execUpdate :: "assignment \<Rightarrow> int \<Rightarrow> (row \<Rightarrow> bool) \<Rightarrow> row list \<Rightarrow> row list" where
  "execUpdate a t sel rows = map (\<lambda>r. if sel r then (assign a r)\<lparr>stime := t\<rparr> else r) rows"

definition UpdatePublicShare ::
  "config \<Rightarrow> deps \<Rightarrow> instant \<Rightarrow> User \<Rightarrow> UpdatePublicShareRequest \<Rightarrow> store
   \<Rightarrow> (error + PublicShare) \<times> store" where
  "UpdatePublicShare cfg d now u req db =
     (case updateParams cfg d (GetUpdate req) of
        Inl err \<Rightarrow> (Inl err, db)
      | Inr a \<Rightarrow>
          (case updateSelector u (Ref req) of
             None \<Rightarrow> (Inl NotFound, db)
           | Some sel \<Rightarrow>
               if \<not> execOK db then (Inl StoreError, db)
               else GetPublicShare cfg d now u (Ref req) False
                      (db\<lparr>table := execUpdate a (Unix now) sel (table db)\<rparr>)))"

subsection \<open>Revoke\<close>

definition revokeSelector :: "User \<Rightarrow> PublicShareReference \<Rightarrow> (row \<Rightarrow> bool) option" where
  "revokeSelector u ref =
     (if GetId ref \<noteq> None \<and> GetId ref \<noteq> Some [] then
        (case GetId ref of
           Some ident \<Rightarrow> Some (byIdOwned ident (UserId u))
         | None \<Rightarrow> None)
      else if GetToken ref \<noteq> [] then Some (byTokenOwned (GetToken ref) (UserId u))
      else None)"

definition RevokePublicShare ::
  "User \<Rightarrow> PublicShareReference \<Rightarrow> store \<Rightarrow> error option \<times> store" where
  "RevokePublicShare u ref db =
     (case revokeSelector u ref of
        None \<Rightarrow> (Some NotFound, db)
      | Some sel \<Rightarrow>
          if \<not> execOK db then (Some StoreError, db)
          else (let rowCnt = length (filter sel (table db));
                    db' = db\<lparr>table := filter (\<lambda>r. \<not> sel r) (table db)\<rparr>
                in if rowCnt = 0 then (Some NotFound, db') else (None, db')))"

subsection \<open>List\<close>

text \<open>The parameters the first loop of \<open>ListPublicShares\<close> collects, one list for each
  kind of filter.\<close>

fun resourceParams :: "Filter list \<Rightarrow> ResourceId list" where
  "resourceParams [] = []"
| "resourceParams (Filter_TYPE_RESOURCE_ID rid # fs) = rid # resourceParams fs"
| "resourceParams (f # fs) = resourceParams fs"

fun ownerParams :: "Filter list \<Rightarrow> string list" where
  "ownerParams [] = []"
| "ownerParams (Filter_TYPE_OWNER uid # fs) = uid # ownerParams fs"
| "ownerParams (f # fs) = ownerParams fs"

fun creatorParams :: "Filter list \<Rightarrow> string list" where
  "creatorParams [] = []"
| "creatorParams (Filter_TYPE_CREATOR uid # fs) = uid # creatorParams fs"
| "creatorParams (f # fs) = creatorParams fs"

text \<open>
  A group of filters of one kind: absent when there is none of the kind, else the
  disjunction \<open>(...) OR (...)\<close> of its members.
\<close>

definition anyOf :: "'a list \<Rightarrow> ('a \<Rightarrow> bool) \<Rightarrow> bool" where
  "anyOf ps holds = (ps = [] \<or> list_ex holds ps)"

text \<open>
  The ownership clause \<open>uidOwnerFilters\<close> returns: \<open>None\<close> is its empty query,
  \<open>Some (a, b)\<close> is \<open>uid_owner=? or uid_initiator=?\<close> with its two parameters.
\<close>

definition ListPublicShares_where :: "Filter list \<Rightarrow> (string \<times> string) option \<Rightarrow> row \<Rightarrow> bool" where
  "ListPublicShares_where filters uidOwners r =
     (notOrphan r \<and> share_type r = publicShareType \<and> internal r = False
      \<and> anyOf (resourceParams filters)
            (\<lambda>rid. fileid_prefix r = StorageId rid \<and> item_source r = OpaqueId rid)
      \<and> anyOf (ownerParams filters) (\<lambda>uid. uid_owner r = uid)
      \<and> anyOf (creatorParams filters) (\<lambda>uid. uid_initiator r = uid)
      \<and> (case uidOwners of
            None \<Rightarrow> True
          | Some (a, b) \<Rightarrow> ownerOrInitiator a b r))"

text \<open>
  The loop of \<open>uidOwnerFilters\<close> over the filters: \<open>True\<close> when it returns from
  inside, having found a resource filter on a project instance whose admin group
  the user is in.
\<close>

fun isProjectAdmin :: "(ResourceId \<Rightarrow> StatResponse option) \<Rightarrow> User \<Rightarrow> Filter list \<Rightarrow> bool" where
  "isProjectAdmin client u [] = False"
| "isProjectAdmin client u (Filter_TYPE_RESOURCE_ID rid # fs) =
     (if HasPrefix (StorageId rid) projectInstancesPrefix then
        (case client rid of
           None \<Rightarrow> isProjectAdmin client u fs
         | Some res \<Rightarrow>
             if \<not> StatusOK res then isProjectAdmin client u fs
             else (let parts = SplitN (Path res) (CHR ''/'') 6
                   in if length parts < 5 then isProjectAdmin client u fs
                      else (let adminGroup = projectSpaceGroupsPrefix @ parts ! 4
                                             @ projectSpaceAdminGroupsSuffix
                            in if adminGroup \<in> set (Groups u) then True
                               else isProjectAdmin client u fs)))
      else isProjectAdmin client u fs)"
| "isProjectAdmin client u (f # fs) = isProjectAdmin client u fs"

definition uidOwnerFilters :: "deps \<Rightarrow> User \<Rightarrow> Filter list \<Rightarrow> error + (string \<times> string) option" where
  "uidOwnerFilters d u filters =
     (let uid = UserId u
      in case GatewayClient d of
           None \<Rightarrow> Inl GatewayError
         | Some client \<Rightarrow>
             if isProjectAdmin client u filters then Inr None
             else Inr (Some (uid, uid)))"

text \<open>
  The loop over the result set: an expired share starts a sweep, whose error is
  dropped, and is left out; any other share is signed when asked for and appended.
\<close>

fun scanRows ::
  "config \<Rightarrow> deps \<Rightarrow> instant \<Rightarrow> bool \<Rightarrow> row list \<Rightarrow> PublicShare list \<Rightarrow> store
   \<Rightarrow> (error + PublicShare list) \<times> store" where
  "scanRows cfg d now sign [] shares db = (Inr shares, db)"
| "scanRows cfg d now sign (s # rows) shares db =
     (let cs3Share = ConvertToCS3PublicShare s
      in if expired now cs3Share then
           scanRows cfg d now sign rows shares (snd (cleanupExpiredShares cfg now db))
         else if PasswordProtected cs3Share \<and> sign then
           (case AddSignature d now cs3Share (share_with s) of
              Inl err \<Rightarrow> (Inl err, db)
            | Inr s' \<Rightarrow> scanRows cfg d now sign rows (shares @ [s']) db)
         else scanRows cfg d now sign rows (shares @ [cs3Share]) db)"

definition ListPublicShares ::
  "config \<Rightarrow> deps \<Rightarrow> instant \<Rightarrow> User \<Rightarrow> Filter list \<Rightarrow> bool \<Rightarrow> store
   \<Rightarrow> (error + PublicShare list) \<times> store" where
  "ListPublicShares cfg d now u filters sign db =
     (case uidOwnerFilters d u filters of
        Inl err \<Rightarrow> (Inl err, db)
      | Inr uidOwners \<Rightarrow>
          if \<not> queryOK db then (Inl StoreError, db)
          else scanRows cfg d now sign
                 (filter (ListPublicShares_where filters uidOwners) (table db)) [] db)"

subsection \<open>Create\<close>

text \<open>
  The row the insert statement writes: \<open>tkn\<close> is the token \<open>utils.RandString(15)\<close>
  returned, \<open>perms\<close> the integer of the granted permissions, \<open>pw\<close> the hash of the
  password (empty without one: the column is then not set), \<open>lastID\<close> the id the
  store assigns. The expiration is set only when the grant has one whose seconds
  are not 0.
\<close>

definition insertedRow ::
  "instant \<Rightarrow> string \<Rightarrow> User \<Rightarrow> ResourceInfo \<Rightarrow> Grant \<Rightarrow> string \<Rightarrow> bool \<Rightarrow> int \<Rightarrow> string
   \<Rightarrow> int \<Rightarrow> row" where
  "insertedRow now tkn u rInfo g descr internalFlag perms pw lastID =
     \<lparr>row_id = FormatInt lastID,
      share_type = publicShareType,
      uid_owner = ResourceOwner rInfo,
      uid_initiator = UserId u,
      item_type = ResourceType rInfo,
      fileid_prefix = StorageId (ResourceInfoId rInfo),
      item_source = OpaqueId (ResourceInfoId rInfo),
      file_source = (case ParseUint (OpaqueId (ResourceInfoId rInfo)) of
                       None \<Rightarrow> 0
                     | Some n \<Rightarrow> n),
      permissions = perms,
      stime = Unix now,
      token = tkn,
      share_name = (case Metadata rInfo ''name'' of None \<Rightarrow> tkn | Some n \<Rightarrow> n),
      quicklink = ParseBool (case Metadata rInfo ''quicklink'' of None \<Rightarrow> [] | Some v \<Rightarrow> v),
      description = descr,
      internal = internalFlag,
      share_with = pw,
      expiration = (case GrantExpiration g of
                      None \<Rightarrow> None
                    | Some ts \<Rightarrow> if Seconds ts \<noteq> 0
                                then Some (Unix (time_Unix (sint (Seconds ts)) 0)) else None),
      orphan = None\<rparr>"

text \<open>The share \<open>CreatePublicShare\<close> returns.\<close>

definition createdShare ::
  "instant \<Rightarrow> string \<Rightarrow> User \<Rightarrow> ResourceInfo \<Rightarrow> Grant \<Rightarrow> string \<Rightarrow> int \<Rightarrow> int
   \<Rightarrow> PublicShare" where
  "createdShare now tkn u rInfo g descr perms lastID =
     \<lparr>ShareId = FormatInt lastID,
      Token = tkn,
      ShareResourceId = ResourceInfoId rInfo,
      Permissions = perms,
      Owner = ResourceOwner rInfo,
      Creator = UserId u,
      Ctime = \<lparr>Seconds = word_of_int (Unix now), Nanos = 0\<rparr>,
      Mtime = \<lparr>Seconds = word_of_int (Unix now), Nanos = 0\<rparr>,
      PasswordProtected = (Password g \<noteq> []),
      Expiration = GrantExpiration g,
      DisplayName = (case Metadata rInfo ''name'' of None \<Rightarrow> tkn | Some n \<Rightarrow> n),
      Quicklink = ParseBool (case Metadata rInfo ''quicklink'' of None \<Rightarrow> [] | Some v \<Rightarrow> v),
      Description = descr,
      ShareSig = None\<rparr>"

definition CreatePublicShare ::
  "config \<Rightarrow> deps \<Rightarrow> instant \<Rightarrow> string \<Rightarrow> User \<Rightarrow> ResourceInfo \<Rightarrow> Grant \<Rightarrow> string \<Rightarrow> bool
   \<Rightarrow> store \<Rightarrow> (error + PublicShare) \<times> store" where
  "CreatePublicShare cfg d now tkn u rInfo g descr internalFlag db =
     (case GrantPermissions g of
        None \<Rightarrow> (Inl Panic, db)
      | Some perms \<Rightarrow>
          (case (if Password g \<noteq> []
                 then hashPassword d (Password g) (SharePasswordHashCost cfg)
                 else ([], None)) of
             (pw, Some err) \<Rightarrow> (Inl err, db)
           | (pw, None) \<Rightarrow>
               if \<not> execOK db then (Inl StoreError, db)
               else (Inr (createdShare now tkn u rInfo g descr perms (lastInsertId db + 1)),
                     db\<lparr>table := table db
                                    @ [insertedRow now tkn u rInfo g descr internalFlag perms pw
                                         (lastInsertId db + 1)],
                        lastInsertId := lastInsertId db + 1\<rparr>)))"

section \<open>Notions the properties are stated with\<close>

text \<open>A row whose share the manager finds expired at \<open>now\<close>.\<close>

definition rowExpired :: "instant \<Rightarrow> row \<Rightarrow> bool" where
  "rowExpired now r = expired now (ConvertToCS3PublicShare r)"

text \<open>A share without the signature that \<open>AddSignature\<close> may have attached.\<close>

definition unsigned :: "PublicShare \<Rightarrow> PublicShare" where
  "unsigned s = s\<lparr>ShareSig := None\<rparr>"


text \<open>
  A row \<open>r'\<close> that differs from the row \<open>r\<close> in no other column than the one of the
  update kind and \<open>stime\<close>.
\<close>

definition differsOnlyInColumnOf :: "UpdateType \<Rightarrow> row \<Rightarrow> row \<Rightarrow> bool" where
  "differsOnlyInColumnOf kind r r' =
     (case kind of
        TYPE_DISPLAYNAME \<Rightarrow> r' = r\<lparr>share_name := share_name r', stime := stime r'\<rparr>
      | TYPE_PERMISSIONS \<Rightarrow> r' = r\<lparr>permissions := permissions r', stime := stime r'\<rparr>
      | TYPE_EXPIRATION \<Rightarrow> r' = r\<lparr>expiration := expiration r', stime := stime r'\<rparr>
      | TYPE_PASSWORD \<Rightarrow> r' = r\<lparr>share_with := share_with r', stime := stime r'\<rparr>
      | TYPE_DESCRIPTION \<Rightarrow> r' = r\<lparr>description := description r', stime := stime r'\<rparr>
      | TYPE_INVALID \<Rightarrow> r' = r)"

text \<open>
  The rows an update by the user \<open>u\<close> on the reference \<open>ref\<close> is to reach: those
  of the referenced id, or else token, that the user owns or created.
\<close>

definition referencedBy :: "User \<Rightarrow> PublicShareReference \<Rightarrow> row \<Rightarrow> bool" where
  "referencedBy u ref r =
     ((case GetId ref of Some ident \<Rightarrow> row_id r = ident | None \<Rightarrow> token r = GetToken ref)
      \<and> (uid_owner r = UserId u \<or> uid_initiator r = UserId u))"

text \<open>The value an update asks to store in the column of its kind.\<close>

definition requestedValue :: "config \<Rightarrow> deps \<Rightarrow> Update \<Rightarrow> row \<Rightarrow> bool" where
  "requestedValue cfg d up r' =
     (case GetType up of
        TYPE_DISPLAYNAME \<Rightarrow> share_name r' = GetDisplayName up
      | TYPE_DESCRIPTION \<Rightarrow> description r' = GetDescription up
      | TYPE_PERMISSIONS \<Rightarrow>
          (\<exists>g. GetGrant up = Some g \<and> GrantPermissions g = Some (permissions r'))
      | TYPE_EXPIRATION \<Rightarrow>
          (\<exists>g ts. GetGrant up = Some g \<and> GrantExpiration g = Some ts
                  \<and> expiration r' = Some (Unix (timeOf (Some (ts\<lparr>Nanos := 0\<rparr>)))))
      | TYPE_PASSWORD \<Rightarrow>
          (\<exists>g. GetGrant up = Some g
               \<and> share_with r' =
                   (if Password g = [] then []
                    else fst (hashPassword d (Password g) (SharePasswordHashCost cfg))))
      | TYPE_INVALID \<Rightarrow> False)"

section \<open>Example data\<close>

text \<open>
  Stand-ins for the collaborators, to run the manager on concrete inputs: a hash
  that keeps the password readable and that, like the one of bcrypt, is refused for
  a cost above 31; a signature that spells out what it signs; a validity of thirty
  minutes; and a gateway that knows one project resource.
\<close>

definition demo_client :: "ResourceId \<Rightarrow> StatResponse option" where
  "demo_client rid =
     (if OpaqueId rid = ''42''
      then Some \<lparr>StatusOK = True, Path = ''/eos/project/c/cernbox''\<rparr>
      else None)"

definition demo_deps :: deps where
  "demo_deps =
     \<lparr>GenerateFromPassword = (\<lambda>p cost. if 31 < cost then None else Some (''$2a$'' @ p)),
      CompareHashAndPassword = (\<lambda>h p. h = ''$2a$'' @ p),
      CreateSignature = (\<lambda>tkn pw e. Some (tkn @ ''|'' @ pw @ ''|'' @ FormatInt (Unix e))),
      signatureValidity = 1800000000000,
      GatewayClient = Some demo_client\<rparr>"

text \<open>The configuration with every default, and the one that enables the cleanup.\<close>

definition demo_cfg :: config where
  "demo_cfg = config_init
     \<lparr>SharePasswordHashCost = 0, JanitorRunInterval = 0, EnableExpiredSharesCleanup = False\<rparr>"

definition demo_cfg_cleanup :: config where
  "demo_cfg_cleanup = demo_cfg\<lparr>EnableExpiredSharesCleanup := True\<rparr>"


definition bob :: User where
  "bob = \<lparr>UserId = ''bob'', Groups = []\<rparr>"

definition carol :: User where
  "carol = \<lparr>UserId = ''carol'', Groups = []\<rparr>"

text \<open>1970-01-01 10:00:00 and 15:00:00.\<close>

definition ten_oclock :: instant where
  "ten_oclock = 36000000000000"

definition three_pm :: instant where
  "three_pm = 54000000000000"

text \<open>A public link of bob on the project resource, and the same link expired at 09:59:59.\<close>

definition bobs_row :: row where
  "bobs_row =
     \<lparr>row_id = ''1'', share_type = 3, uid_owner = ''bob'', uid_initiator = ''bob'',
      item_type = ''file'', fileid_prefix = ''newproject-c'', item_source = ''42'',
      file_source = 42, permissions = 1, stime = 100, token = ''tok'', share_name = ''tok'',
      quicklink = False, description = [], internal = False, share_with = [],
      expiration = None, orphan = None\<rparr>"

definition expired_row :: row where
  "expired_row = bobs_row\<lparr>expiration := Some 35999\<rparr>"

text \<open>A second link of bob on the same resource, never expiring.\<close>

definition live_row :: row where
  "live_row = bobs_row\<lparr>row_id := ''2'', token := ''tk2''\<rparr>"

text \<open>The link protected by the password \<open>p@ss\<close>.\<close>

definition protected_row :: row where
  "protected_row = bobs_row\<lparr>share_with := ''1|$2a$p@ss''\<rparr>"

text \<open>A share of bob with another user (share type 0), kept in the same table.\<close>

definition user_share_row :: row where
  "user_share_row =
     bobs_row\<lparr>row_id := ''7'', share_type := 0, token := [], share_name := ''report'',
              expiration := Some 35999\<rparr>"

definition empty_store :: store where
  "empty_store = \<lparr>table = [], lastInsertId = 0, queryOK = True, execOK = True\<rparr>"

definition store_of :: "row list \<Rightarrow> store" where
  "store_of rows = \<lparr>table = rows, lastInsertId = 7, queryOK = True, execOK = True\<rparr>"

definition by_token :: "string \<Rightarrow> PublicShareReference" where
  "by_token t = \<lparr>GetId = None, GetToken = t\<rparr>"

definition by_id :: "string \<Rightarrow> PublicShareReference" where
  "by_id i = \<lparr>GetId = Some i, GetToken = []\<rparr>"


definition no_auth :: PublicShareAuthentication where
  "no_auth = \<lparr>GetPassword = [], GetSignature = None\<rparr>"

definition rename_to :: "string \<Rightarrow> Update" where
  "rename_to n =
     \<lparr>GetType = TYPE_DISPLAYNAME, GetGrant = None, GetDisplayName = n, GetDescription = []\<rparr>"

definition expire_at :: "64 word \<Rightarrow> Update" where
  "expire_at sec =
     \<lparr>GetType = TYPE_EXPIRATION,
      GetGrant = Some \<lparr>GrantPermissions = None, Password = [],
                       GrantExpiration = Some \<lparr>Seconds = sec, Nanos = 0\<rparr>\<rparr>,
      GetDisplayName = [], GetDescription = []\<rparr>"

definition project_resource :: ResourceInfo where
  "project_resource =
     \<lparr>Metadata = Map.empty, ResourceOwner = ''bob'', ResourceType = ''file'',
      ResourceInfoId = \<lparr>StorageId = ''newproject-c'', OpaqueId = ''42''\<rparr>\<rparr>"

definition expiring_grant :: "64 word \<Rightarrow> Grant" where
  "expiring_grant sec =
     \<lparr>GrantPermissions = Some 1, Password = [],
      GrantExpiration = Some \<lparr>Seconds = sec, Nanos = 0\<rparr>\<rparr>"

text \<open>
  The store after bob, at ten o'clock, creates a link that expired a second before,
  and the store after he then reads it, with the cleanup disabled and enabled.
\<close>

definition created_expired :: "config \<Rightarrow> store" where
  "created_expired cfg =
     snd (CreatePublicShare cfg demo_deps ten_oclock ''tok'' bob project_resource
            (expiring_grant 35999) [] False empty_store)"

definition read_expired :: "config \<Rightarrow> (error + PublicShare) \<times> store" where
  "read_expired cfg =
     GetPublicShare cfg demo_deps ten_oclock bob (by_token ''tok'') False (created_expired cfg)"

text \<open>
  The same at three in the afternoon, with the cleanup enabled: the link expired
  at 14:59:59.
\<close>

definition created_at_three_pm :: store where
  "created_at_three_pm =
     snd (CreatePublicShare demo_cfg_cleanup demo_deps three_pm ''tok'' bob project_resource
            (expiring_grant 53999) [] False empty_store)"

definition read_at_three_pm :: "(error + PublicShare) \<times> store" where
  "read_at_three_pm =
     GetPublicShare demo_cfg_cleanup demo_deps three_pm bob (by_token ''tok'') False
       created_at_three_pm"

text \<open>1970-01-01 00:30:00, and a link of bob that expires at 06:00:00 of that day.\<close>

definition half_past_midnight :: instant where
  "half_past_midnight = 1800000000000"

definition morning_row :: row where
  "morning_row = bobs_row\<lparr>expiration := Some 21600\<rparr>"

text \<open>And the store after bob moves the expiration of that link to a later day.\<close>

definition extended :: "(error + PublicShare) \<times> store" where
  "extended =
     UpdatePublicShare demo_cfg_cleanup demo_deps ten_oclock bob
       \<lparr>Ref = by_token ''tok'', GetUpdate = Some (expire_at 99999)\<rparr>
       (snd (read_expired demo_cfg_cleanup))"

text \<open>A capability signature for the protected link that expires at second 5.\<close>

definition demo_signature :: ShareSignature where
  "demo_signature =
     \<lparr>Signature = ''tok|1|$2a$p@ss|5'',
      SignatureExpiration = Some \<lparr>Seconds = 5, Nanos = 0\<rparr>\<rparr>"

definition signature_auth :: PublicShareAuthentication where
  "signature_auth = \<lparr>GetPassword = [], GetSignature = Some demo_signature\<rparr>"

section \<open>Auxiliary facts\<close>

text \<open>
  Where the seconds Go keeps do not leave the \<open>int64\<close>, \<open>time.Unix\<close> is the instant
  \<open>sec\<close> seconds and \<open>nsec\<close> nanoseconds after the epoch; past that range it wraps,
  as at the largest seconds a timestamp can claim.
\<close>

lemma wrap64_id:
  "- 9223372036854775808 \<le> x \<Longrightarrow> x < 9223372036854775808 \<Longrightarrow> wrap64 x = x"
  by (simp add: wrap64_def)

lemma time_Unix_in_range:
  assumes "- 9223372036854775808 \<le> sec + nsec div 1000000000 + unixToInternal"
    and "sec + nsec div 1000000000 + unixToInternal < 9223372036854775808"
  shows "time_Unix sec nsec = sec * 1000000000 + nsec"
proof -
  have "wrap64 (sec + nsec div 1000000000 + unixToInternal) = sec + nsec div 1000000000 + unixToInternal"
    using assms by (rule wrap64_id)
  then have "time_Unix sec nsec = (sec + nsec div 1000000000) * 1000000000 + nsec mod 1000000000"
    by (simp add: time_Unix_def)
  also have "\<dots> = sec * 1000000000 + (nsec div 1000000000 * 1000000000 + nsec mod 1000000000)"
    by (simp add: algebra_simps)
  also have "\<dots> = sec * 1000000000 + nsec"
    by simp
  finally show ?thesis .
qed

lemma timeOf_in_range:
  assumes "sint (Seconds ts) + uint (Nanos ts) div 1000000000 + unixToInternal
             < 9223372036854775808"
  shows "timeOf (Some ts) = sint (Seconds ts) * 1000000000 + uint (Nanos ts)"
proof -
  have "- 9223372036854775808 \<le> sint (Seconds ts)"
    using sint_ge [of "Seconds ts"] by simp
  moreover have "0 \<le> uint (Nanos ts) div 1000000000"
    using pos_imp_zdiv_nonneg_iff [of 1000000000 "uint (Nanos ts)"] by simp
  ultimately have
    "- 9223372036854775808 \<le> sint (Seconds ts) + uint (Nanos ts) div 1000000000 + unixToInternal"
    by (simp add: unixToInternal_def)
  from time_Unix_in_range [OF this assms] show ?thesis
    by (simp add: timeOf_def GetSeconds_def GetNanos_def)
qed

lemma timeOf_wraps:
  "timeOf (Some \<lparr>Seconds = 9223372036854775807, Nanos = 0\<rparr>) = - 9223372036854775809000000000"
  by code_simp

text \<open>
  A row is expired exactly when its expiration is set and the second it names is
  before the instant of the call, for every second a datetime column can hold.
\<close>

lemma rowExpired_meaning:
  assumes "- 9223372036854775808 \<le> e" and "e < 9223372036854775808 - unixToInternal"
  shows "rowExpired now (r\<lparr>expiration := Some e\<rparr>) \<longleftrightarrow> e * 1000000000 < now"
    and "\<not> rowExpired now (r\<lparr>expiration := None\<rparr>)"
proof -
  have u: "unixToInternal = 62135596800" by (simp add: unixToInternal_def)
  have s: "sint (word_of_int e :: 64 word) = e"
    using assms u by (simp add: int_word_sint)
  have "time_Unix e 0 = e * 1000000000 + 0"
    using assms u by (intro time_Unix_in_range) simp_all
  then show "rowExpired now (r\<lparr>expiration := Some e\<rparr>) \<longleftrightarrow> e * 1000000000 < now"
    by (simp add: rowExpired_def expired_def ConvertToCS3PublicShare_def timeOf_def
          GetSeconds_def GetNanos_def Before_def s)
  show "\<not> rowExpired now (r\<lparr>expiration := None\<rparr>)"
    by (simp add: rowExpired_def expired_def ConvertToCS3PublicShare_def)
qed


lemma rowExpired_token: "expired now (ConvertToCS3PublicShare (s\<lparr>token := t\<rparr>)) = rowExpired now s"
  by (simp add: rowExpired_def expired_def ConvertToCS3PublicShare_def)

lemma rowExpired_row_id: "expired now (ConvertToCS3PublicShare (s\<lparr>row_id := t\<rparr>)) = rowExpired now s"
  by (simp add: rowExpired_def expired_def ConvertToCS3PublicShare_def)

lemma expired_unsigned: "expired now (unsigned s) = expired now s"
  by (simp add: expired_def unsigned_def)

lemma unsigned_Convert: "unsigned (ConvertToCS3PublicShare r) = ConvertToCS3PublicShare r"
  by (simp add: unsigned_def ConvertToCS3PublicShare_def)

lemma AddSignature_unsigned: "AddSignature d now s pw = Inr s' \<Longrightarrow> unsigned s' = unsigned s"
  by (auto simp: AddSignature_def unsigned_def split: option.splits)

text \<open>A sweep that is disabled or whose statement executes does not fail.\<close>

lemma cleanup_succeeds:
  "execOK db \<or> \<not> EnableExpiredSharesCleanup cfg \<Longrightarrow> fst (cleanupExpiredShares cfg now db) = None"
  by (auto simp: cleanupExpiredShares_def)

lemma expired_branch:
  assumes "fst (cleanupExpiredShares cfg now db) = None"
  shows "(case cleanupExpiredShares cfg now db of
            (Some err, db') \<Rightarrow> (Inl err, db')
          | (None, db') \<Rightarrow> (Inl NotFound, db'))
         = (Inl NotFound, snd (cleanupExpiredShares cfg now db))"
  using assms by (cases "cleanupExpiredShares cfg now db") auto

text \<open>A share that \<open>GetPublicShare\<close> returns leaves the store as it was.\<close>

lemma GetPublicShare_Inr_store:
  "GetPublicShare cfg d now u ref sign db = (Inr sh, db') \<Longrightarrow> db' = db"
  unfolding GetPublicShare_def
  by (simp split: sum.splits prod.splits if_splits option.splits)

text \<open>
  Whatever the store does, a share that \<open>GetPublicShare\<close> or
  \<open>GetPublicShareByToken\<close> returns is not expired.
\<close>

lemma AddSignature_expired:
  "AddSignature d now s pw = Inr s' \<Longrightarrow> expired now s' = expired now s"
  by (auto simp: AddSignature_def expired_def split: option.splits)

lemma GetPublicShare_not_expired:
  "fst (GetPublicShare cfg d now u ref sign db) = Inr sh \<Longrightarrow> \<not> expired now sh"
  unfolding GetPublicShare_def
  by (auto simp: AddSignature_expired split: sum.splits prod.splits if_splits option.splits)

lemma GetPublicShareByToken_not_expired:
  "fst (GetPublicShareByToken cfg d now tkn auth sign db) = Inr sh \<Longrightarrow> \<not> expired now sh"
  unfolding GetPublicShareByToken_def Let_def
  by (auto simp: AddSignature_expired split: sum.splits prod.splits if_splits option.splits)

text \<open>
  The shares the loop of \<open>ListPublicShares\<close> returns are, signatures apart and in the
  order of the result set, the rows of the result set that are not expired.
\<close>

lemma scanRows_shares:
  "fst (scanRows cfg d now sign rows acc db) = Inr shares \<Longrightarrow>
   map unsigned shares =
     map unsigned acc @ map ConvertToCS3PublicShare (filter (\<lambda>r. \<not> rowExpired now r) rows)"
proof (induction rows arbitrary: acc db)
  case Nil
  then show ?case by simp
next
  case (Cons s rows)
  show ?case
  proof (cases "rowExpired now s")
    case True
    with Cons.prems have
      "fst (scanRows cfg d now sign rows acc (snd (cleanupExpiredShares cfg now db))) = Inr shares"
      by (simp add: rowExpired_def)
    from Cons.IH [OF this] True show ?thesis by simp
  next
    case False
    show ?thesis
    proof (cases "PasswordProtected (ConvertToCS3PublicShare s) \<and> sign")
      case True
      with False Cons.prems obtain s' where
        a: "AddSignature d now (ConvertToCS3PublicShare s) (share_with s) = Inr s'"
        and r: "fst (scanRows cfg d now sign rows (acc @ [s']) db) = Inr shares"
        by (auto simp: rowExpired_def split: sum.splits)
      from Cons.IH [OF r] AddSignature_unsigned [OF a] False show ?thesis
        by (simp add: unsigned_Convert)
    next
      case nosign: False
      with False Cons.prems have
        "fst (scanRows cfg d now sign rows (acc @ [ConvertToCS3PublicShare s]) db) = Inr shares"
        by (auto simp: rowExpired_def)
      from Cons.IH [OF this] False show ?thesis
        by (simp add: unsigned_Convert)
    qed
  qed
qed


lemma ListPublicShares_shares:
  assumes "fst (ListPublicShares cfg d now u filters sign db) = Inr shares"
  shows "\<exists>own. uidOwnerFilters d u filters = Inr own
           \<and> map unsigned shares =
               map ConvertToCS3PublicShare
                 (filter (\<lambda>r. \<not> rowExpired now r)
                    (filter (ListPublicShares_where filters own) (table db)))"
proof -
  from assms obtain own where o: "uidOwnerFilters d u filters = Inr own"
    by (cases "uidOwnerFilters d u filters") (auto simp: ListPublicShares_def)
  from assms o have
    "fst (scanRows cfg d now sign (filter (ListPublicShares_where filters own) (table db)) [] db)
       = Inr shares"
    by (auto simp: ListPublicShares_def split: if_splits)
  from scanRows_shares [OF this] o show ?thesis by simp
qed




text \<open>What the update statement of a successful \<open>UpdatePublicShare\<close> wrote.\<close>

lemma UpdatePublicShare_Inr:
  assumes "UpdatePublicShare cfg d now u req db = (Inr sh, db')"
  shows "\<exists>a sel. updateParams cfg d (GetUpdate req) = Inr a
           \<and> updateSelector u (Ref req) = Some sel
           \<and> db' = db\<lparr>table := execUpdate a (Unix now) sel (table db)\<rparr>"
proof -
  from assms obtain a where a: "updateParams cfg d (GetUpdate req) = Inr a"
    by (cases "updateParams cfg d (GetUpdate req)") (auto simp: UpdatePublicShare_def)
  from assms a obtain sel where s: "updateSelector u (Ref req) = Some sel"
    by (cases "updateSelector u (Ref req)") (auto simp: UpdatePublicShare_def)
  from assms a s have on: "execOK db"
    by (auto simp: UpdatePublicShare_def split: if_splits)
  from assms a s on have
    "GetPublicShare cfg d now u (Ref req) False
       (db\<lparr>table := execUpdate a (Unix now) sel (table db)\<rparr>) = (Inr sh, db')"
    by (simp add: UpdatePublicShare_def)
  from GetPublicShare_Inr_store [OF this] a s show ?thesis
    by simp
qed

text \<open>
  Where the delete of \<open>RevokePublicShare\<close> matches no row the call reports
  \<open>NotFound\<close>, and so does \<open>UpdatePublicShare\<close> on a reference by id: the row it
  reads back is selected by the same id and the same caller.
\<close>

lemma RevokePublicShare_no_rows:
  assumes "execOK db" and "revokeSelector u ref = Some sel" and "filter sel (table db) = []"
  shows "RevokePublicShare u ref db = (Some NotFound, db)"
proof -
  from assms(3) have "filter (\<lambda>r. \<not> sel r) (table db) = table db"
    by (induction "table db") (auto simp: filter_empty_conv filter_id_conv)
  with assms show ?thesis by (simp add: RevokePublicShare_def)
qed

lemma UpdatePublicShare_by_id_no_rows:
  assumes ex: "execOK db" and q: "queryOK db"
    and a: "updateParams cfg d (GetUpdate req) = Inr a"
    and i: "GetId (Ref req) = Some ident"
    and none: "filter (byIdOwned ident (UserId u)) (table db) = []"
  shows "UpdatePublicShare cfg d now u req db = (Inl NotFound, db)"
proof -
  from none have no: "\<not> byIdOwned ident (UserId u) r" if "r \<in> set (table db)" for r
    using that by (simp add: filter_empty_conv)
  have same: "execUpdate a (Unix now) (byIdOwned ident (UserId u)) (table db) = table db"
    unfolding execUpdate_def by (rule map_idI) (simp add: no)
  have "find (getByID_where ident (UserId u)) (table db) = None"
    using no by (auto simp: find_None_iff getByID_where_def byIdOwned_def)
  with ex q a i same show ?thesis
    by (simp add: UpdatePublicShare_def updateSelector_def GetPublicShare_def getByID_def)
qed

text \<open>
  The layout of the sweep's parameter at three in the afternoon: the parameter is
  03:00:00, and a link that expired a second before 15:00:00 stays unmarked.
\<close>

lemma sweep_parameter_at_three_pm:
  "Format_2006_01_02_03_04_05 three_pm = 10800
   \<and> map orphan (table (snd (cleanupExpiredShares demo_cfg_cleanup three_pm
                                (store_of [bobs_row\<lparr>expiration := Some 53999\<rparr>])))) = [None]"
  by code_simp

text \<open>
  What the where clauses of the four selects ask of a row: all of them the public
  link type, all but the one of \<open>GetPublicShareByToken\<close> that it is no orphan.
\<close>

lemma selects_scoped:
  "(getByToken_where tkn r \<longrightarrow> share_type r = publicShareType \<and> notOrphan r)
   \<and> (getByID_where ident uid r \<longrightarrow> share_type r = publicShareType \<and> notOrphan r)
   \<and> (ListPublicShares_where filters own r \<longrightarrow>
         share_type r = publicShareType \<and> notOrphan r \<and> \<not> internal r)
   \<and> (GetPublicShareByToken_where tkn r \<longrightarrow> share_type r = publicShareType)"
  by (simp add: getByToken_where_def getByID_where_def ListPublicShares_where_def
        GetPublicShareByToken_where_def)

text \<open>The column an update of each kind assigns, when it assigns one.\<close>

lemma assignment_of_kind:
  assumes "updateParams cfg d (Some up) = Inr a"
  shows "(case GetType up of
            TYPE_DISPLAYNAME \<Rightarrow> a = Set_share_name (GetDisplayName up)
          | TYPE_DESCRIPTION \<Rightarrow> a = Set_description (GetDescription up)
          | TYPE_PERMISSIONS \<Rightarrow> (\<exists>p. a = Set_permissions p)
          | TYPE_EXPIRATION \<Rightarrow> (\<exists>e. a = Set_expiration e)
          | TYPE_PASSWORD \<Rightarrow> (\<exists>h. a = Set_share_with h)
          | TYPE_INVALID \<Rightarrow> False)"
proof (cases "GetType up")
  case TYPE_INVALID
  with assms show ?thesis by (simp add: updateParams_def)
next
  case TYPE_PERMISSIONS
  with assms show ?thesis
    by (auto simp: updateParams_def split: option.splits)
next
  case TYPE_PASSWORD
  with assms show ?thesis
    by (auto simp: updateParams_def split: option.splits if_splits prod.splits)
next
  case TYPE_EXPIRATION
  with assms show ?thesis
    by (auto simp: updateParams_def split: option.splits)
next
  case TYPE_DISPLAYNAME
  with assms show ?thesis by (simp add: updateParams_def)
next
  case TYPE_DESCRIPTION
  with assms show ?thesis by (simp add: updateParams_def)
qed

section \<open>Properties of the read paths\<close>

text \<open>
  C1. A share whose expiration instant is in the past at call time is absent on
  every read path, whether or not its \<open>orphan\<close> column is set: \<open>GetPublicShare\<close>, by
  id and by token, and \<open>GetPublicShareByToken\<close> answer \<open>NotFound\<close> when the row they
  select is expired, and \<open>ListPublicShares\<close> returns no expired share and leaves
  the expired row out of its result. The selects of the call execute, and the
  sweep that the read of an expired share starts does not fail: a failed statement
  is reported as the error of the store.
\<close>

theorem expired_shares_absent:
  assumes "queryOK db" and "fst (cleanupExpiredShares cfg now db) = None"
    and "rowExpired now s"
  shows "(find (getByID_where ident (UserId u)) (table db) = Some s \<longrightarrow>
            fst (GetPublicShare cfg d now u \<lparr>GetId = Some ident, GetToken = t\<rparr> sign db)
              = Inl NotFound)
       \<and> (tkn \<noteq> [] \<and> find (getByToken_where tkn) (table db) = Some s \<longrightarrow>
            fst (GetPublicShare cfg d now u \<lparr>GetId = None, GetToken = tkn\<rparr> sign db)
              = Inl NotFound)
       \<and> (find (GetPublicShareByToken_where tkn) (table db) = Some s \<longrightarrow>
            fst (GetPublicShareByToken cfg d now tkn auth sign db) = Inl NotFound)
       \<and> (\<forall>shares. fst (ListPublicShares cfg d now u filters sign db) = Inr shares \<longrightarrow>
            (\<forall>sh \<in> set shares. \<not> expired now sh)
            \<and> ConvertToCS3PublicShare s \<notin> set (map unsigned shares))"
proof -
  note c = expired_branch [OF assms(2)]
  have 1: "fst (GetPublicShare cfg d now u \<lparr>GetId = Some ident, GetToken = t\<rparr> sign db)
             = Inl NotFound"
    if "find (getByID_where ident (UserId u)) (table db) = Some s"
    using assms that by (simp add: GetPublicShare_def getByID_def rowExpired_row_id c)
  have 2: "fst (GetPublicShare cfg d now u \<lparr>GetId = None, GetToken = tkn\<rparr> sign db)
             = Inl NotFound"
    if "tkn \<noteq> []" and "find (getByToken_where tkn) (table db) = Some s"
    using assms that by (simp add: GetPublicShare_def getByToken_def rowExpired_token c)
  have 3: "fst (GetPublicShareByToken cfg d now tkn auth sign db) = Inl NotFound"
    if "find (GetPublicShareByToken_where tkn) (table db) = Some s"
    using assms that by (simp add: GetPublicShareByToken_def rowExpired_token c)
  have 4: "(\<forall>sh \<in> set shares. \<not> expired now sh)
           \<and> ConvertToCS3PublicShare s \<notin> set (map unsigned shares)"
    if l: "fst (ListPublicShares cfg d now u filters sign db) = Inr shares" for shares
  proof -
    from ListPublicShares_shares [OF l] obtain own where
      m: "map unsigned shares =
            map ConvertToCS3PublicShare
              (filter (\<lambda>r. \<not> rowExpired now r)
                 (filter (ListPublicShares_where filters own) (table db)))"
      by blast
    have live: "\<not> expired now x" if "x \<in> set (map unsigned shares)" for x
      using that unfolding m by (auto simp: rowExpired_def)
    have "\<not> expired now sh" if "sh \<in> set shares" for sh
      using live [of "unsigned sh"] that by (simp add: expired_unsigned)
    moreover have "ConvertToCS3PublicShare s \<notin> set (map unsigned shares)"
      using live [of "ConvertToCS3PublicShare s"] assms(3) by (auto simp: rowExpired_def)
    ultimately show ?thesis by blast
  qed
  from 1 2 3 4 show ?thesis by blast
qed

theorem expired_shares_absent_witness:
  "queryOK (store_of [expired_row, live_row])
   \<and> fst (cleanupExpiredShares demo_cfg ten_oclock (store_of [expired_row, live_row])) = None
   \<and> rowExpired ten_oclock expired_row
   \<and> orphan expired_row = None
   \<and> fst (GetPublicShare demo_cfg demo_deps ten_oclock bob (by_id ''1'') False
            (store_of [expired_row, live_row])) = Inl NotFound
   \<and> fst (GetPublicShare demo_cfg demo_deps ten_oclock bob (by_token ''tok'') False
            (store_of [expired_row, live_row])) = Inl NotFound
   \<and> fst (GetPublicShareByToken demo_cfg demo_deps ten_oclock ''tok'' no_auth False
            (store_of [expired_row, live_row])) = Inl NotFound
   \<and> fst (ListPublicShares demo_cfg demo_deps ten_oclock bob [] False
            (store_of [expired_row, live_row])) = Inr [ConvertToCS3PublicShare live_row]
   \<and> ConvertToCS3PublicShare expired_row
        \<notin> set (map unsigned [ConvertToCS3PublicShare live_row])"
proof -
  have on: "queryOK (store_of [expired_row, live_row])"
    by code_simp
  have sw: "fst (cleanupExpiredShares demo_cfg ten_oclock (store_of [expired_row, live_row])) = None"
    by code_simp
  have ex: "rowExpired ten_oclock expired_row"
    by code_simp
  have un: "orphan expired_row = None"
    by code_simp
  have f1: "find (getByID_where ''1'' (UserId bob)) (table (store_of [expired_row, live_row]))
              = Some expired_row"
    by code_simp
  have f2: "''tok'' \<noteq> [] \<and> find (getByToken_where ''tok'') (table (store_of [expired_row, live_row]))
              = Some expired_row"
    by code_simp
  have f3: "find (GetPublicShareByToken_where ''tok'') (table (store_of [expired_row, live_row]))
              = Some expired_row"
    by code_simp
  have l: "fst (ListPublicShares demo_cfg demo_deps ten_oclock bob [] False
                  (store_of [expired_row, live_row])) = Inr [ConvertToCS3PublicShare live_row]"
    by code_simp
  note t = expired_shares_absent [OF on sw ex, of "''1''" bob demo_deps "[]" False
             "''tok''" no_auth "[]"]
  from t f1 f2 f3 l on sw ex un show ?thesis
    by (simp add: by_id_def by_token_def)
qed

text \<open>
  C2. Every lookup excludes the rows whose \<open>orphan\<close> flag is set. The statement of
  \<open>GetPublicShareByToken\<close> has no clause on \<open>orphan\<close>: after bob creates a link that
  is already expired, reads it with the cleanup enabled (the sweep marks the row)
  and moves its expiration to a later day, the row is an orphan that is not
  expired; \<open>GetPublicShare\<close> by token answers \<open>NotFound\<close> for it, and
  \<open>GetPublicShareByToken\<close> returns the share.
\<close>

theorem orphan_row_authenticates:
  "map orphan (table (snd extended)) = [Some True]
   \<and> map expiration (table (snd extended)) = [Some 99999]
   \<and> getByToken (snd extended) ''tok'' = Inl NotFound
   \<and> fst (GetPublicShare demo_cfg_cleanup demo_deps ten_oclock bob (by_token ''tok'') False
            (snd extended)) = Inl NotFound
   \<and> fst (ListPublicShares demo_cfg_cleanup demo_deps ten_oclock bob [] False (snd extended))
        = Inr []
   \<and> fst (GetPublicShareByToken demo_cfg_cleanup demo_deps ten_oclock ''tok'' no_auth False
            (snd extended))
        = Inr (ConvertToCS3PublicShare (hd (table (snd extended))))"
  by code_simp

section \<open>Properties of authentication\<close>

text \<open>
  C3 (as amended). For an attempt that carries a signature and no password,
  verification succeeds if and only if the candidate equals the signature freshly
  computed for the token, the stored hash and the expiration, and the current time
  is not after that expiration: the signature is accepted up to and at the
  expiration instant and rejected at every later instant. The expiration is the
  instant \<open>time.Unix\<close> makes of the claimed seconds and nanoseconds, wrap-around
  included.
\<close>

theorem signature_valid_until_expiration:
  assumes "GetPassword auth = []" and "GetSignature auth = Some sig"
  shows "authenticate d now share pw auth \<longleftrightarrow>
           (CreateSignature d (Token share) pw (timeOf (SignatureExpiration sig))
              = Some (Signature sig)
            \<and> now \<le> timeOf (SignatureExpiration sig))"
  using assms by (auto simp: authenticate_def After_def Let_def split: option.splits)

theorem signature_valid_until_expiration_witness:
  "GetPassword signature_auth = []
   \<and> GetSignature signature_auth = Some demo_signature
   \<and> timeOf (SignatureExpiration demo_signature) = 5000000000
   \<and> authenticate demo_deps 4999999999 (ConvertToCS3PublicShare protected_row)
        (share_with protected_row) signature_auth
   \<and> \<not> authenticate demo_deps 5000000001 (ConvertToCS3PublicShare protected_row)
        (share_with protected_row) signature_auth"
proof -
  have p: "GetPassword signature_auth = []"
    by code_simp
  have g: "GetSignature signature_auth = Some demo_signature"
    by code_simp
  have e: "timeOf (SignatureExpiration demo_signature) = 5000000000"
    by code_simp
  have c: "CreateSignature demo_deps (Token (ConvertToCS3PublicShare protected_row))
             (share_with protected_row) 5000000000 = Some (Signature demo_signature)"
    by code_simp
  note t = signature_valid_until_expiration [OF p g, of demo_deps _
             "ConvertToCS3PublicShare protected_row" "share_with protected_row"]
  from t [of 4999999999] t [of 5000000001] p g e c show ?thesis
    by simp
qed

text \<open>
  C3 as stated fails at the expiration instant itself: there the current time is
  not before the expiration, and the signature is still accepted.
\<close>

theorem signature_accepted_at_expiration:
  "\<not> (5000000000 < timeOf (SignatureExpiration demo_signature))
   \<and> authenticate demo_deps 5000000000 (ConvertToCS3PublicShare protected_row)
        (share_with protected_row) signature_auth"
  by code_simp

text \<open>
  C10. On a password-protected share that is found (the select executes) and not
  expired, a non-empty
  password in the attempt decides the call alone: the call does not depend on the
  signature the attempt carries, a password that does not check against the stored
  hash fails it with \<open>InvalidCredentials\<close>, one that checks never does; and an
  attempt with neither password nor signature fails with \<open>InvalidCredentials\<close>.
\<close>

theorem password_is_decisive:
  assumes "queryOK db"
    and "find (GetPublicShareByToken_where tkn) (table db) = Some s"
    and "share_with s \<noteq> []"
    and "\<not> rowExpired now s"
  shows "(GetPassword auth \<noteq> [] \<longrightarrow>
            GetPublicShareByToken cfg d now tkn (auth\<lparr>GetSignature := sg\<rparr>) sign db
              = GetPublicShareByToken cfg d now tkn auth sign db
            \<and> (\<not> checkPasswordHash d (GetPassword auth) (share_with s) \<longrightarrow>
                 GetPublicShareByToken cfg d now tkn auth sign db = (Inl InvalidCredentials, db))
            \<and> (checkPasswordHash d (GetPassword auth) (share_with s) \<longrightarrow>
                 fst (GetPublicShareByToken cfg d now tkn auth sign db) \<noteq> Inl InvalidCredentials))
       \<and> (GetPassword auth = [] \<and> GetSignature auth = None \<longrightarrow>
            GetPublicShareByToken cfg d now tkn auth sign db = (Inl InvalidCredentials, db))"
proof -
  have e: "\<not> expired now (ConvertToCS3PublicShare (s\<lparr>token := tkn\<rparr>))"
    using assms(4) by (simp add: rowExpired_token)
  have pw: "authenticate d now sh (share_with s) a = checkPasswordHash d (GetPassword a) (share_with s)"
    if "GetPassword a \<noteq> []" for a sh
    using that by (simp add: authenticate_def)
  have none: "\<not> authenticate d now sh (share_with s) a"
    if "GetPassword a = []" and "GetSignature a = None" for a sh
    using that by (simp add: authenticate_def)
  have 1: "GetPublicShareByToken cfg d now tkn (auth\<lparr>GetSignature := sg\<rparr>) sign db
             = GetPublicShareByToken cfg d now tkn auth sign db"
    if "GetPassword auth \<noteq> []"
    using assms(1-3) e that pw [of auth] pw [of "auth\<lparr>GetSignature := sg\<rparr>"]
    by (simp add: GetPublicShareByToken_def)
  have 2: "GetPublicShareByToken cfg d now tkn auth sign db = (Inl InvalidCredentials, db)"
    if "GetPassword auth \<noteq> []" and "\<not> checkPasswordHash d (GetPassword auth) (share_with s)"
    using assms(1-3) e that pw [of auth]
    by (simp add: GetPublicShareByToken_def)
  have 3: "fst (GetPublicShareByToken cfg d now tkn auth sign db) \<noteq> Inl InvalidCredentials"
    if "GetPassword auth \<noteq> []" and "checkPasswordHash d (GetPassword auth) (share_with s)"
  proof -
    have "AddSignature d now sh (share_with s) \<noteq> Inl InvalidCredentials" for sh
      by (simp add: AddSignature_def split: option.splits)
    then have "fst (case AddSignature d now sh (share_with s) of
                      Inl err \<Rightarrow> (Inl err, db)
                    | Inr s' \<Rightarrow> (Inr s', db)) \<noteq> Inl InvalidCredentials" for sh
      by (cases "AddSignature d now sh (share_with s)") auto
    with assms(1-3) e that pw [of auth] show ?thesis
      by (simp add: GetPublicShareByToken_def Let_def)
  qed
  have 4: "GetPublicShareByToken cfg d now tkn auth sign db = (Inl InvalidCredentials, db)"
    if "GetPassword auth = []" and "GetSignature auth = None"
    using assms(1-3) e that none [of auth]
    by (simp add: GetPublicShareByToken_def)
  from 1 2 3 4 show ?thesis by blast
qed

theorem password_is_decisive_witness:
  "queryOK (store_of [protected_row])
   \<and> find (GetPublicShareByToken_where ''tok'') (table (store_of [protected_row]))
        = Some protected_row
   \<and> share_with protected_row \<noteq> []
   \<and> \<not> rowExpired 4999999999 protected_row
   \<and> authenticate demo_deps 4999999999 (ConvertToCS3PublicShare protected_row)
        (share_with protected_row) signature_auth
   \<and> GetPublicShareByToken demo_cfg demo_deps 4999999999 ''tok''
        \<lparr>GetPassword = ''wrong'', GetSignature = Some demo_signature\<rparr> False
        (store_of [protected_row])
      = (Inl InvalidCredentials, store_of [protected_row])
   \<and> fst (GetPublicShareByToken demo_cfg demo_deps 4999999999 ''tok''
        \<lparr>GetPassword = ''p@ss'', GetSignature = None\<rparr> False (store_of [protected_row]))
      = Inr (ConvertToCS3PublicShare protected_row)
   \<and> GetPublicShareByToken demo_cfg demo_deps 4999999999 ''tok'' no_auth False
        (store_of [protected_row])
      = (Inl InvalidCredentials, store_of [protected_row])"
proof -
  have h1: "queryOK (store_of [protected_row])"
    by code_simp
  have h2: "find (GetPublicShareByToken_where ''tok'') (table (store_of [protected_row]))
              = Some protected_row"
    by code_simp
  have h3: "share_with protected_row \<noteq> []"
    by code_simp
  have h4: "\<not> rowExpired 4999999999 protected_row"
    by code_simp
  have v: "authenticate demo_deps 4999999999 (ConvertToCS3PublicShare protected_row)
             (share_with protected_row) signature_auth"
    by code_simp
  have w: "GetPassword \<lparr>GetPassword = ''wrong'', GetSignature = Some demo_signature\<rparr> \<noteq> []
           \<and> \<not> checkPasswordHash demo_deps
                 (GetPassword \<lparr>GetPassword = ''wrong'', GetSignature = Some demo_signature\<rparr>)
                 (share_with protected_row)"
    by code_simp
  have n: "GetPassword no_auth = [] \<and> GetSignature no_auth = None"
    by code_simp
  have r: "fst (GetPublicShareByToken demo_cfg demo_deps 4999999999 ''tok''
             \<lparr>GetPassword = ''p@ss'', GetSignature = None\<rparr> False (store_of [protected_row]))
           = Inr (ConvertToCS3PublicShare protected_row)"
    by code_simp
  note t = password_is_decisive [OF h1 h2 h3 h4, of _ demo_cfg demo_deps None False]
  from t [of "\<lparr>GetPassword = ''wrong'', GetSignature = Some demo_signature\<rparr>"] w
  have a: "GetPublicShareByToken demo_cfg demo_deps 4999999999 ''tok''
             \<lparr>GetPassword = ''wrong'', GetSignature = Some demo_signature\<rparr> False
             (store_of [protected_row])
           = (Inl InvalidCredentials, store_of [protected_row])"
    by blast
  from t [of no_auth] n
  have b: "GetPublicShareByToken demo_cfg demo_deps 4999999999 ''tok'' no_auth False
             (store_of [protected_row])
           = (Inl InvalidCredentials, store_of [protected_row])"
    by blast
  from h1 h2 h3 h4 v a r b show ?thesis
    by blast
qed




section \<open>Properties of update, revoke and the sweep\<close>

text \<open>
  C4. An update or revoke whose selector matches no row returns \<open>NotFound\<close>.
  \<open>RevokePublicShare\<close> reads the number of deleted rows; \<open>UpdatePublicShare\<close> does
  not read the number of updated rows and answers with what \<open>GetPublicShare\<close>
  finds for the reference, which on a token is not tied to the caller: carol,
  neither owner nor creator of bob's link, renames it by its token; no row is
  written, and the call returns the link.
\<close>

theorem update_by_token_of_a_stranger:
  "filter (byTokenOwned ''tok'' (UserId carol)) (table (store_of [bobs_row])) = []
   \<and> UpdatePublicShare demo_cfg demo_deps ten_oclock carol
        \<lparr>Ref = by_token ''tok'', GetUpdate = Some (rename_to ''mine'')\<rparr> (store_of [bobs_row])
      = (Inr (ConvertToCS3PublicShare bobs_row), store_of [bobs_row])
   \<and> RevokePublicShare carol (by_token ''tok'') (store_of [bobs_row])
      = (Some NotFound, store_of [bobs_row])"
  by code_simp

text \<open>
  What the update statement assigns, read off the request: the reference selects
  the rows, and the kind of the update the one column written besides \<open>stime\<close>.
\<close>

lemma updateSelector_referencedBy:
  "updateSelector u ref = Some sel \<Longrightarrow> sel = referencedBy u ref"
  by (auto simp: updateSelector_def referencedBy_def byIdOwned_def byTokenOwned_def
        ownerOrInitiator_def fun_eq_iff split: option.splits if_splits)

lemma assign_column:
  assumes "updateParams cfg d (Some up) = Inr a"
  shows "differsOnlyInColumnOf (GetType up) r ((assign a r)\<lparr>stime := t\<rparr>)
         \<and> requestedValue cfg d up ((assign a r)\<lparr>stime := t\<rparr>)"
proof (cases "GetType up")
  case TYPE_INVALID
  with assms show ?thesis by (simp add: updateParams_def)
next
  case TYPE_PERMISSIONS
  with assms obtain g p where "GetGrant up = Some g" and "GrantPermissions g = Some p"
    and "a = Set_permissions p"
    by (auto simp: updateParams_def split: option.splits)
  with TYPE_PERMISSIONS show ?thesis
    by (simp add: differsOnlyInColumnOf_def requestedValue_def)
next
  case TYPE_PASSWORD
  with assms obtain g where g: "GetGrant up = Some g"
    by (auto simp: updateParams_def split: option.splits)
  have "a = Set_share_with (if Password g = [] then []
                            else fst (hashPassword d (Password g) (SharePasswordHashCost cfg)))"
    using assms TYPE_PASSWORD g
    by (cases "hashPassword d (Password g) (SharePasswordHashCost cfg)")
       (auto simp: updateParams_def split: if_splits option.splits)
  with TYPE_PASSWORD g show ?thesis
    by (simp add: differsOnlyInColumnOf_def requestedValue_def)
next
  case TYPE_EXPIRATION
  with assms obtain g ts where "GetGrant up = Some g" and "GrantExpiration g = Some ts"
    and "a = Set_expiration (Unix (time_Unix (sint (Seconds ts)) 0))"
    by (auto simp: updateParams_def split: option.splits)
  with TYPE_EXPIRATION show ?thesis
    by (simp add: differsOnlyInColumnOf_def requestedValue_def timeOf_def
          GetSeconds_def GetNanos_def)
next
  case TYPE_DISPLAYNAME
  with assms have "a = Set_share_name (GetDisplayName up)"
    by (simp add: updateParams_def)
  with TYPE_DISPLAYNAME show ?thesis
    by (simp add: differsOnlyInColumnOf_def requestedValue_def)
next
  case TYPE_DESCRIPTION
  with assms have "a = Set_description (GetDescription up)"
    by (simp add: updateParams_def)
  with TYPE_DESCRIPTION show ?thesis
    by (simp add: differsOnlyInColumnOf_def requestedValue_def)
qed

text \<open>
  C7 (as amended). A successful \<open>UpdatePublicShare\<close> changes, on every row of the
  referenced id or token that the caller owns or created, no other column than the
  one of the update kind, which gets the requested value, and \<open>stime\<close>, which is
  set to the second of the call; every other row and the rest of the store are
  unchanged.
\<close>

theorem update_writes_column_and_stime:
  assumes "UpdatePublicShare cfg d now u req db = (Inr sh, db')"
  shows "\<exists>up. GetUpdate req = Some up
           \<and> lastInsertId db' = lastInsertId db
           \<and> queryOK db' = queryOK db
           \<and> execOK db' = execOK db
           \<and> list_all2
                (\<lambda>r r'. if referencedBy u (Ref req) r
                         then differsOnlyInColumnOf (GetType up) r r'
                              \<and> stime r' = Unix now
                              \<and> requestedValue cfg d up r'
                         else r' = r)
                (table db) (table db')"
proof -
  from UpdatePublicShare_Inr [OF assms] obtain a sel where
    a: "updateParams cfg d (GetUpdate req) = Inr a"
    and s: "updateSelector u (Ref req) = Some sel"
    and d: "db' = db\<lparr>table := execUpdate a (Unix now) sel (table db)\<rparr>"
    by blast
  from a obtain up where up: "GetUpdate req = Some up"
    by (cases "GetUpdate req") (auto simp: updateParams_def)
  note sel = updateSelector_referencedBy [OF s]
  note col = assign_column [OF a [unfolded up]]
  have "list_all2
          (\<lambda>r r'. if referencedBy u (Ref req) r
                   then differsOnlyInColumnOf (GetType up) r r'
                        \<and> stime r' = Unix now
                        \<and> requestedValue cfg d up r'
                   else r' = r)
          (table db) (table db')"
    unfolding d execUpdate_def sel
    by (simp add: list_all2_map2 list_all2_same col)
  with up d show ?thesis by simp
qed

theorem update_writes_column_and_stime_witness:
  "UpdatePublicShare demo_cfg demo_deps ten_oclock bob
     \<lparr>Ref = by_token ''tok'', GetUpdate = Some (rename_to ''report'')\<rparr> (store_of [bobs_row, live_row])
     = (Inr (ConvertToCS3PublicShare (bobs_row\<lparr>share_name := ''report'', stime := 36000\<rparr>)),
        store_of [bobs_row\<lparr>share_name := ''report'', stime := 36000\<rparr>, live_row])
   \<and> (\<exists>up. GetUpdate \<lparr>Ref = by_token ''tok'', GetUpdate = Some (rename_to ''report'')\<rparr> = Some up
          \<and> lastInsertId (store_of [bobs_row\<lparr>share_name := ''report'', stime := 36000\<rparr>, live_row])
              = lastInsertId (store_of [bobs_row, live_row])
          \<and> queryOK (store_of [bobs_row\<lparr>share_name := ''report'', stime := 36000\<rparr>, live_row])
              = queryOK (store_of [bobs_row, live_row])
          \<and> execOK (store_of [bobs_row\<lparr>share_name := ''report'', stime := 36000\<rparr>, live_row])
              = execOK (store_of [bobs_row, live_row])
          \<and> list_all2
               (\<lambda>r r'. if referencedBy bob
                             (Ref \<lparr>Ref = by_token ''tok'', GetUpdate = Some (rename_to ''report'')\<rparr>) r
                        then differsOnlyInColumnOf (GetType up) r r'
                             \<and> stime r' = Unix ten_oclock
                             \<and> requestedValue demo_cfg demo_deps up r'
                        else r' = r)
               (table (store_of [bobs_row, live_row]))
               (table (store_of [bobs_row\<lparr>share_name := ''report'', stime := 36000\<rparr>, live_row])))"
proof -
  have r: "UpdatePublicShare demo_cfg demo_deps ten_oclock bob
             \<lparr>Ref = by_token ''tok'', GetUpdate = Some (rename_to ''report'')\<rparr>
             (store_of [bobs_row, live_row])
           = (Inr (ConvertToCS3PublicShare (bobs_row\<lparr>share_name := ''report'', stime := 36000\<rparr>)),
              store_of [bobs_row\<lparr>share_name := ''report'', stime := 36000\<rparr>, live_row])"
    by code_simp
  note c = update_writes_column_and_stime [OF r]
  show ?thesis
    by (rule conjI) (rule r c)+
qed

text \<open>
  C7 as stated fails on the creation timestamp: bob renames the link he created at
  second 100, and the row's \<open>stime\<close> and the creation time of the returned share
  are the second of the update.
\<close>

theorem update_moves_stime:
  "map stime (table (store_of [bobs_row])) = [100]
   \<and> map stime (table (snd (UpdatePublicShare demo_cfg demo_deps ten_oclock bob
          \<lparr>Ref = by_token ''tok'', GetUpdate = Some (rename_to ''report'')\<rparr>
          (store_of [bobs_row])))) = [36000]
   \<and> map_sum id Ctime (fst (UpdatePublicShare demo_cfg demo_deps ten_oclock bob
          \<lparr>Ref = by_token ''tok'', GetUpdate = Some (rename_to ''report'')\<rparr>
          (store_of [bobs_row]))) = Inr \<lparr>Seconds = 36000, Nanos = 0\<rparr>"
  by code_simp

text \<open>
  C8. Every statement is scoped to the rows of share type 3. The selects are; the
  update, the delete and the sweep carry no clause on \<open>share_type\<close>. On a table
  that holds a share of bob with another user (share type 0, id 7): an update by
  that id renames the row and then reports \<open>NotFound\<close>, a revoke by that id deletes
  it, and a sweep marks it as orphan.
\<close>

theorem writes_reach_other_share_types:
  "map share_type (table (store_of [user_share_row])) = [0]
   \<and> UpdatePublicShare demo_cfg demo_deps ten_oclock bob
        \<lparr>Ref = by_id ''7'', GetUpdate = Some (rename_to ''mine'')\<rparr> (store_of [user_share_row])
      = (Inl NotFound, store_of [user_share_row\<lparr>share_name := ''mine'', stime := 36000\<rparr>])
   \<and> RevokePublicShare bob (by_id ''7'') (store_of [user_share_row]) = (None, store_of [])
   \<and> cleanupExpiredShares demo_cfg_cleanup ten_oclock (store_of [user_share_row])
      = (None, store_of [user_share_row\<lparr>orphan := Some True\<rparr>])"
  by code_simp

text \<open>
  C6. Every sweep sets \<open>orphan\<close> on the rows whose expiration is set and earlier
  than the current time, so that a link created with an expiration a second in the
  past is found marked after it was read. The sweep binds the current time in the
  layout \<open>2006-01-02 03:04:05\<close>, whose hour is the one of the 12-hour clock: with
  the cleanup enabled, at 15:00:00, bob creates a link that expired at 14:59:59 and
  reads it at once; he gets \<open>NotFound\<close>, the sweep compares with 03:00:00, and the
  row keeps its \<open>orphan\<close> column unset.
\<close>

theorem sweep_misses_link_expired_in_the_afternoon:
  "EnableExpiredSharesCleanup demo_cfg_cleanup
   \<and> queryOK created_at_three_pm
   \<and> execOK created_at_three_pm
   \<and> map expiration (table created_at_three_pm) = [Some (Unix three_pm - 1)]
   \<and> rowExpired three_pm (hd (table created_at_three_pm))
   \<and> fst read_at_three_pm = Inl NotFound
   \<and> map orphan (table (snd read_at_three_pm)) = [None]
   \<and> Unix three_pm = 54000
   \<and> Format_2006_01_02_03_04_05 three_pm = 10800"
  by code_simp

text \<open>
  The same layout at 00:30:00 reads 12:30:00: a sweep then marks a link that
  expires at 06:00:00 of that day, and the link, not expired, is no longer found.
\<close>

lemma sweep_orphans_live_link_after_midnight:
  "Format_2006_01_02_03_04_05 half_past_midnight = 45000
   \<and> \<not> rowExpired half_past_midnight morning_row
   \<and> fst (GetPublicShare demo_cfg_cleanup demo_deps half_past_midnight bob (by_token ''tok'') False
            (store_of [morning_row])) = Inr (ConvertToCS3PublicShare morning_row)
   \<and> map orphan (table (snd (cleanupExpiredShares demo_cfg_cleanup half_past_midnight
                                (store_of [morning_row])))) = [Some True]
   \<and> fst (GetPublicShare demo_cfg_cleanup demo_deps half_past_midnight bob (by_token ''tok'') False
            (snd (cleanupExpiredShares demo_cfg_cleanup half_past_midnight
                    (store_of [morning_row])))) = Inl NotFound"
  by code_simp

text \<open>
  What a sweep does: with the cleanup enabled it sets \<open>orphan\<close> on every row whose
  expiration is set and earlier than the parameter it binds, and changes nothing
  else; with the cleanup disabled, which is the default, it changes nothing and
  the janitor never runs. \<open>GetPublicShare\<close> on an expired share, when its select
  executes and the sweep it starts does not fail, returns \<open>NotFound\<close> and leaves
  the store as the sweep leaves it.
\<close>

lemma cleanupExpiredShares_effect:
  "(EnableExpiredSharesCleanup cfg \<and> execOK db \<longrightarrow>
      cleanupExpiredShares cfg now db =
        (None, db\<lparr>table :=
           map (\<lambda>r. case expiration r of
                      None \<Rightarrow> r
                    | Some e \<Rightarrow> if e < Format_2006_01_02_03_04_05 now
                                then r\<lparr>orphan := Some True\<rparr> else r) (table db)\<rparr>)
      \<and> startJanitorRun cfg [Tick now] db = snd (cleanupExpiredShares cfg now db))
   \<and> (\<not> EnableExpiredSharesCleanup cfg \<longrightarrow>
        cleanupExpiredShares cfg now db = (None, db) \<and> startJanitorRun cfg events db = db)
   \<and> (queryOK db \<and> fst (cleanupExpiredShares cfg now db) = None \<and> rowExpired now s
        \<and> (GetId ref = Some ident \<and> find (getByID_where ident (UserId u)) (table db) = Some s
            \<or> GetId ref = None \<and> GetToken ref \<noteq> []
               \<and> find (getByToken_where (GetToken ref)) (table db) = Some s)
       \<longrightarrow> GetPublicShare cfg d now u ref sign db
             = (Inl NotFound, snd (cleanupExpiredShares cfg now db)))"
proof -
  have m: "markOrphan p = (\<lambda>r. case expiration r of
                                 None \<Rightarrow> r
                               | Some e \<Rightarrow> if e < p then r\<lparr>orphan := Some True\<rparr> else r)" for p
    by (auto simp: markOrphan_def cleanup_where_def fun_eq_iff split: option.splits)
  have 1: "cleanupExpiredShares cfg now db =
        (None, db\<lparr>table :=
           map (\<lambda>r. case expiration r of
                      None \<Rightarrow> r
                    | Some e \<Rightarrow> if e < Format_2006_01_02_03_04_05 now
                                then r\<lparr>orphan := Some True\<rparr> else r) (table db)\<rparr>)"
    if "EnableExpiredSharesCleanup cfg" and "execOK db"
    using that by (simp add: cleanupExpiredShares_def m)
  have 2: "startJanitorRun cfg [Tick now] db = snd (cleanupExpiredShares cfg now db)"
    if "EnableExpiredSharesCleanup cfg"
    using that by simp
  have 3: "cleanupExpiredShares cfg now db = (None, db)"
    if "\<not> EnableExpiredSharesCleanup cfg"
    using that by (simp add: cleanupExpiredShares_def)
  have 4: "startJanitorRun cfg events db = db"
    if "\<not> EnableExpiredSharesCleanup cfg"
    using that by (cases "(cfg, events, db)" rule: startJanitorRun.cases) simp_all
  have 5: "GetPublicShare cfg d now u ref sign db
             = (Inl NotFound, snd (cleanupExpiredShares cfg now db))"
    if "queryOK db" and "fst (cleanupExpiredShares cfg now db) = None"
      and "rowExpired now s" and "GetId ref = Some ident"
      and "find (getByID_where ident (UserId u)) (table db) = Some s"
    using that
    by (simp add: GetPublicShare_def getByID_def rowExpired_row_id expired_branch)
  have 6: "GetPublicShare cfg d now u ref sign db
             = (Inl NotFound, snd (cleanupExpiredShares cfg now db))"
    if "queryOK db" and "fst (cleanupExpiredShares cfg now db) = None"
      and "rowExpired now s" and "GetId ref = None" and "GetToken ref \<noteq> []"
      and "find (getByToken_where (GetToken ref)) (table db) = Some s"
    using that
    by (simp add: GetPublicShare_def getByToken_def rowExpired_token expired_branch)
  from 1 2 3 4 5 6 show ?thesis by blast
qed

text \<open>
  Under the default configuration bob creates a link that expired a second
  before, reads it at once and gets \<open>NotFound\<close>, and the row has no \<open>orphan\<close> flag.
\<close>

lemma disabled_cleanup_leaves_orphan_unset:
  "\<not> EnableExpiredSharesCleanup demo_cfg
   \<and> map expiration (table (created_expired demo_cfg)) = [Some (Unix ten_oclock - 1)]
   \<and> fst (read_expired demo_cfg) = Inl NotFound
   \<and> map orphan (table (snd (read_expired demo_cfg))) = [None]
   \<and> cleanupExpiredShares demo_cfg ten_oclock (created_expired demo_cfg)
      = (None, created_expired demo_cfg)"
  by code_simp

section \<open>Properties of listing\<close>



end
